theory Spec2Isabelle
  imports Main "HOL-Library.Sublist"
begin

chapter \<open>The model\<close>

section \<open>Data model\<close>

text \<open>
  Strings are \<open>string\<close>. A stored time (an ISO string in the job record) is modelled by
  the time value of \<^verbatim>\<open>new Date(s)\<close> in milliseconds: \<open>None\<close> is the NaN of an
  invalid date, with which every comparison is false.
\<close>

type_synonym timestamp = "int option"

definition date_gt :: "timestamp \<Rightarrow> timestamp \<Rightarrow> bool" where
  "date_gt a b = (case (a, b) of (Some x, Some y) \<Rightarrow> x > y | _ \<Rightarrow> False)"

record S3KeyInfo =
  bucket :: string
  key :: string
  region :: string

datatype job_status = PENDING | PROCESSING | COMPLETED | FAILED

text \<open>
  Modelled from the spec: the \<^verbatim>\<open>DownloadJob\<close> type of
  \<^verbatim>\<open>lib/redis-download-job-store\<close> is not among the sources. The record has the
  fields the two handlers read (spec section 3 lists them as status, accessUrls,
  objectRefs, createdAt, expiresAt and the actor identity). An optional field that is
  absent is \<open>None\<close>. An \<^verbatim>\<open>expiresAt\<close> that is the empty string, which
  JavaScript takes for false, is the invalid date \<open>Some None\<close>: the filter below
  leaves the job out either way.
\<close>

record DownloadJob =
  job_status :: job_status
  userId :: "string option"
  job_teamId :: "string option"
  job_linkId :: "string option"
  viewerEmail :: "string option"
  downloadUrls :: "string list option"
  downloadS3Keys :: "S3KeyInfo list option"
  createdAt :: timestamp
  expiresAt :: "timestamp option"

section \<open>Owner job listing: the visibility filter\<close>

text \<open>
  The callback of \<^verbatim>\<open>jobs.filter\<close> in
  \<^verbatim>\<open>pages/api/teams/[teamId]/datarooms/[id]/download/jobs.ts\<close>; \<open>now\<close> is the
  clock read by \<^verbatim>\<open>new Date()\<close> and \<^verbatim>\<open>Date.now()\<close>.
\<close>

definition oneHourAgo :: "int \<Rightarrow> int" where
  "oneHourAgo now = now - 60 * 60 * 1000"

definition job_filter :: "string \<Rightarrow> int \<Rightarrow> DownloadJob \<Rightarrow> bool" where
  "job_filter uid now job =
     (if userId job = Some uid then
        (if job_status job = PENDING \<or> job_status job = PROCESSING then True
         else if job_status job = COMPLETED \<and> expiresAt job \<noteq> None then
           (case expiresAt job of Some e \<Rightarrow> date_gt e (Some now) | None \<Rightarrow> False)
         else if job_status job = FAILED then
           date_gt (createdAt job) (Some (oneHourAgo now))
         else False)
      else False)"

definition userJobs :: "string \<Rightarrow> int \<Rightarrow> DownloadJob list \<Rightarrow> DownloadJob list" where
  "userJobs uid now jobs = filter (job_filter uid now) jobs"

text \<open>A COMPLETED job of user \<open>user_1\<close> that was never stamped with an expiry.\<close>

definition example_completed_job :: DownloadJob where
  "example_completed_job =
     \<lparr>job_status = COMPLETED, userId = Some ''user_1'', job_teamId = Some ''team_1'',
      job_linkId = None, viewerEmail = None,
      downloadUrls = Some [''https://bucket1.s3.us-east-1.amazonaws.com/exports/x.zip''],
      downloadS3Keys = None, createdAt = Some 1699999000000, expiresAt = None\<rparr>"

section \<open>Notification debouncer: step 4 of the upload route\<close>

text \<open>
  \<^verbatim>\<open>app/(ee)/api/links/[id]/upload/route.ts\<close>, lines 156 to 204. A run of the
  scheduler is its id and its tags (\<^verbatim>\<open>run.tags\<close> may be undefined). The
  scheduler's calls are inputs of the model: \<open>list_runs\<close> is \<^verbatim>\<open>runs.list\<close>,
  asked for the given tags (it answers with the runs that carry any of them),
  \<open>None\<close> when it rejects; \<open>cancel_ok\<close> tells whether \<^verbatim>\<open>runs.cancel\<close> of
  a run id resolves.
\<close>

record run =
  run_id :: string
  run_tags :: "string list option"

definition requiredTags :: "string \<Rightarrow> string \<Rightarrow> string \<Rightarrow> string list" where
  "requiredTags dataroomId linkId viewerId =
     [''dataroom_'' @ dataroomId, ''link_'' @ linkId, ''viewer_'' @ viewerId]"

text \<open>\<^verbatim>\<open>run.tags?.includes(tag)\<close>: undefined, hence falsy, without tags.\<close>

definition tags_include :: "string list option \<Rightarrow> string \<Rightarrow> bool" where
  "tags_include ts tag = (case ts of None \<Rightarrow> False | Some xs \<Rightarrow> tag \<in> set xs)"

definition matchingRuns :: "string list \<Rightarrow> run list \<Rightarrow> run list" where
  "matchingRuns required allRuns =
     filter (\<lambda>run. list_all (\<lambda>tag. tags_include (run_tags run) tag) required) allRuns"

record UploadNotificationPayload =
  p_dataroomId :: string
  p_linkId :: string
  p_viewerId :: string
  p_teamId :: string

record trigger_request =
  trigger_payload :: UploadNotificationPayload
  idempotencyKey :: string
  trigger_tags :: "string list"
  delay :: int

definition upload_idempotencyKey ::
  "string \<Rightarrow> string \<Rightarrow> string \<Rightarrow> string \<Rightarrow> string \<Rightarrow> string" where
  "upload_idempotencyKey teamId dataroomId linkId viewerId documentId =
     ''upload-notification-'' @ teamId @ ''-'' @ dataroomId @ ''-'' @ linkId @ ''-''
       @ viewerId @ ''-'' @ documentId"

definition upload_tags :: "string \<Rightarrow> string \<Rightarrow> string \<Rightarrow> string \<Rightarrow> string list" where
  "upload_tags teamId dataroomId linkId viewerId =
     [''team_'' @ teamId, ''dataroom_'' @ dataroomId, ''link_'' @ linkId,
      ''viewer_'' @ viewerId]"

definition new_trigger ::
  "string \<Rightarrow> string \<Rightarrow> string \<Rightarrow> string \<Rightarrow> string \<Rightarrow> int \<Rightarrow> trigger_request" where
  "new_trigger teamId dataroomId linkId viewerId documentId now =
     \<lparr>trigger_payload =
        \<lparr>p_dataroomId = dataroomId, p_linkId = linkId, p_viewerId = viewerId,
         p_teamId = teamId\<rparr>,
      idempotencyKey = upload_idempotencyKey teamId dataroomId linkId viewerId documentId,
      trigger_tags = upload_tags teamId dataroomId linkId viewerId,
      delay = now + 5 * 60 * 1000\<rparr>"

text \<open>
  What step 4 does to the scheduler: the run ids handed to \<^verbatim>\<open>runs.cancel\<close>, the
  triggers handed to \<^verbatim>\<open>sendDataroomUploadNotificationTask.trigger\<close>, and the
  lines written by \<^verbatim>\<open>console.error\<close>.
\<close>

record notify_effects =
  cancel_calls :: "string list"
  trigger_calls :: "trigger_request list"
  notify_logs :: "string list"

text \<open>
  \<^verbatim>\<open>Promise.all(matchingRuns.map(...))\<close> issues every cancel and rejects when one
  of them rejects; the \<^verbatim>\<open>catch\<close> then logs and no trigger is scheduled.
\<close>

definition notify ::
  "bool \<Rightarrow> string \<Rightarrow> string \<Rightarrow> string \<Rightarrow> string \<Rightarrow> string \<Rightarrow> int \<Rightarrow>
   (string list \<Rightarrow> run list option) \<Rightarrow> (string \<Rightarrow> bool) \<Rightarrow> notify_effects" where
  "notify enableNotification teamId dataroomId linkId viewerId documentId now
       list_runs cancel_ok =
     (if enableNotification then
        (case list_runs (requiredTags dataroomId linkId viewerId) of
           None \<Rightarrow>
             \<lparr>cancel_calls = [], trigger_calls = [],
              notify_logs = [''Error triggering upload notification:'']\<rparr>
         | Some allRuns \<Rightarrow>
             (let matching = matchingRuns (requiredTags dataroomId linkId viewerId) allRuns
              in if list_all (\<lambda>run. cancel_ok (run_id run)) matching then
                   \<lparr>cancel_calls = map run_id matching,
                    trigger_calls =
                      [new_trigger teamId dataroomId linkId viewerId documentId now],
                    notify_logs = []\<rparr>
                 else
                   \<lparr>cancel_calls = map run_id matching, trigger_calls = [],
                    notify_logs = [''Error triggering upload notification:'']\<rparr>))
      else \<lparr>cancel_calls = [], trigger_calls = [], notify_logs = []\<rparr>)"

text \<open>
  Three pending runs as \<^verbatim>\<open>runs.list\<close> may return them for the tags of dataroom
  \<open>d1\<close>, link \<open>l1\<close>, viewer \<open>v1\<close>: the first was scheduled for that very
  correlation, the second for another viewer of the same dataroom and link, the third
  carries no tags.
\<close>

definition example_runs :: "run list" where
  "example_runs =
     [\<lparr>run_id = ''run_1'', run_tags = Some (upload_tags ''t1'' ''d1'' ''l1'' ''v1'')\<rparr>,
      \<lparr>run_id = ''run_2'', run_tags = Some (upload_tags ''t1'' ''d1'' ''l1'' ''v2'')\<rparr>,
      \<lparr>run_id = ''run_3'', run_tags = None\<rparr>]"

text \<open>
  Modelled from the spec: the scheduler is a third-party service, outside the
  repository. The spec gives it pending delayed triggers that carry a tag set, a tag
  query that answers with the triggers carrying any of the tags asked for,
  cancellation of a trigger, and idempotency keys under which duplicate triggers
  collapse to one. A scheduler state is the list of its pending triggers;
  \<open>runs_list\<close>, \<open>runs_cancel\<close> and \<open>task_trigger\<close> are the three calls of
  step 4 on it (\<open>fresh\<close> is the id the scheduler gives to a new run), and
  \<open>apply_effects\<close> carries out on a state what one request's step 4 asked for.
\<close>

record pending_run =
  pr_id :: string
  pr_idempotencyKey :: string
  pr_tags :: "string list"
  pr_delay :: int

definition as_run :: "pending_run \<Rightarrow> run" where
  "as_run r = \<lparr>run_id = pr_id r, run_tags = Some (pr_tags r)\<rparr>"

definition runs_list :: "pending_run list \<Rightarrow> string list \<Rightarrow> run list option" where
  "runs_list s tags =
     Some (map as_run (filter (\<lambda>r. list_ex (\<lambda>tag. tag \<in> set (pr_tags r)) tags) s))"

definition runs_cancel :: "string \<Rightarrow> pending_run list \<Rightarrow> pending_run list" where
  "runs_cancel i s = filter (\<lambda>r. pr_id r \<noteq> i) s"

definition task_trigger ::
  "string \<Rightarrow> trigger_request \<Rightarrow> pending_run list \<Rightarrow> pending_run list" where
  "task_trigger fresh req s =
     (if list_ex (\<lambda>r. pr_idempotencyKey r = idempotencyKey req) s then s
      else s @ [\<lparr>pr_id = fresh, pr_idempotencyKey = idempotencyKey req,
                 pr_tags = trigger_tags req, pr_delay = delay req\<rparr>])"

definition apply_effects ::
  "string \<Rightarrow> notify_effects \<Rightarrow> pending_run list \<Rightarrow> pending_run list" where
  "apply_effects fresh e s =
     fold (task_trigger fresh) (trigger_calls e) (fold runs_cancel (cancel_calls e) s)"

text \<open>
  A scheduler with one pending trigger, scheduled a minute earlier for an upload of
  viewer \<open>v1\<close> through link \<open>l1\<close> to dataroom \<open>d1\<close>.
\<close>

definition example_pending :: "pending_run list" where
  "example_pending =
     [\<lparr>pr_id = ''run_0'',
       pr_idempotencyKey = upload_idempotencyKey ''t1'' ''d1'' ''l1'' ''v1'' ''doc_0'',
       pr_tags = upload_tags ''t1'' ''d1'' ''l1'' ''v1'', pr_delay = 1700000240000\<rparr>]"

section \<open>JavaScript helpers\<close>

text \<open>
  A JavaScript string is modelled by its UTF-8 bytes. \<open>truthy\<close> is the truth value
  JavaScript gives an optional string: undefined, null and the empty string are falsy.
  \<open>js_index\<close> is \<^verbatim>\<open>xs[i]\<close>: undefined outside the list.
\<close>

definition truthy :: "string option \<Rightarrow> bool" where
  "truthy x = (case x of None \<Rightarrow> False | Some s \<Rightarrow> s \<noteq> [])"

definition has_length :: "'a list option \<Rightarrow> bool" where
  "has_length x = (case x of None \<Rightarrow> False | Some xs \<Rightarrow> xs \<noteq> [])"

definition js_index :: "'a list \<Rightarrow> int \<Rightarrow> 'a option" where
  "js_index xs i = (if 0 \<le> i \<and> i < int (length xs) then Some (xs ! nat i) else None)"

text \<open>
  \<^verbatim>\<open>parseInt(s, 10)\<close>: leading white space and line terminators are skipped (the
  ASCII ones, and U+00A0, U+1680, U+2000 to U+200A, U+2028, U+2029, U+202F, U+205F,
  U+3000, U+FEFF in UTF-8), then an optional sign, then the longest run of decimal
  digits; NaN (\<open>None\<close>) when that run is empty. The result is an unbounded integer
  here and a double in JavaScript (minus zero is 0): comparing it with a list length
  gives the same answer.
\<close>

definition ws_len :: "string \<Rightarrow> nat" where
  "ws_len s =
     (if take 1 s \<in> set (map (\<lambda>c. [c])
           [CHR 0x09, CHR 0x0A, CHR 0x0B, CHR 0x0C, CHR 0x0D, CHR 0x20]) then 1
      else if take 2 s = [CHR 0xC2, CHR 0xA0] then 2
      else if take 3 s \<in> set
           ([[CHR 0xE1, CHR 0x9A, CHR 0x80], [CHR 0xE2, CHR 0x81, CHR 0x9F],
             [CHR 0xE3, CHR 0x80, CHR 0x80], [CHR 0xEF, CHR 0xBB, CHR 0xBF]] @
            map (\<lambda>c. [CHR 0xE2, CHR 0x80, c])
              [CHR 0x80, CHR 0x81, CHR 0x82, CHR 0x83, CHR 0x84, CHR 0x85, CHR 0x86,
               CHR 0x87, CHR 0x88, CHR 0x89, CHR 0x8A, CHR 0xA8, CHR 0xA9, CHR 0xAF])
      then 3
      else 0)"

fun trimStart :: "string \<Rightarrow> string" where
  "trimStart [] = []"
| "trimStart (c # s) =
     (if ws_len (c # s) = 0 then c # s else trimStart (drop (ws_len (c # s) - 1) s))"

definition is_digit :: "char \<Rightarrow> bool" where
  "is_digit c = ((48::nat) \<le> of_char c \<and> of_char c \<le> (57::nat))"

definition digit_value :: "char \<Rightarrow> nat" where
  "digit_value c = of_char c - 48"

definition parseInt10 :: "string \<Rightarrow> int option" where
  "parseInt10 input =
     (let s = trimStart input;
          negative = (take 1 s = ''-'');
          s' = (if take 1 s = ''-'' \<or> take 1 s = ''+'' then drop 1 s else s);
          z = takeWhile is_digit s'
      in if z = [] then None
         else Some ((if negative then - 1 else 1)
                    * int (foldl (\<lambda>a c. 10 * a + digit_value c) 0 z)))"

section \<open>Parts download\<close>

text \<open>
  The parts-download handler (lines 181 to 262 of
  \<^verbatim>\<open>pages/api/jobs/send-dataroom-upload-notification.ts\<close>). Its lookups are inputs
  of the model: \<open>getSession\<close> answers a link id with the view id of the session,
  \<open>findView\<close> answers a view id with the view's \<^verbatim>\<open>viewerEmail\<close> (\<open>None\<close>: no such
  view), \<open>getJob\<close> is the job store, \<open>lowerTrim\<close> is
  \<^verbatim>\<open>toLowerCase().trim()\<close>. \<open>mint\<close> is \<^verbatim>\<open>generateFreshPresignedUrl\<close>, which
  signs with the AWS SDK: \<open>None\<close> when it rejects.
\<close>

type_synonym mint = "string \<Rightarrow> S3KeyInfo \<Rightarrow> string option"

record parts_request =
  req_method :: string
  query_linkId :: "string option"
  query_jobId :: "string option"
  query_partIndex :: "string option"

record parts_env =
  getSession :: "string \<Rightarrow> string option"
  findView :: "string \<Rightarrow> string option option"
  getJob :: "string \<Rightarrow> DownloadJob option"
  lowerTrim :: "string \<Rightarrow> string"

datatype parts_response =
  Parts_error nat string
| Parts_redirect nat "string option"

record parts_result =
  parts_response :: parts_response
  parts_mint_calls :: "(string \<times> S3KeyInfo) list"
  parts_logs :: "string list"

definition parts_reply :: "parts_response \<Rightarrow> parts_result" where
  "parts_reply r = \<lparr>parts_response = r, parts_mint_calls = [], parts_logs = []\<rparr>"

text \<open>Lines 238 to 261: the job's state, the index guard, re-minting and the fallback.\<close>

definition serve_part :: "mint \<Rightarrow> DownloadJob \<Rightarrow> string \<Rightarrow> parts_result" where
  "serve_part mint job partIndex =
     (if job_status job \<noteq> COMPLETED \<or> \<not> has_length (downloadUrls job) then
        parts_reply (Parts_error 400 ''Download not ready'')
      else
        (case downloadUrls job of
           None \<Rightarrow> parts_reply (Parts_error 400 ''Download not ready'')
         | Some urls \<Rightarrow>
            (case parseInt10 partIndex of
               None \<Rightarrow> parts_reply (Parts_error 400 ''Invalid part index'')
             | Some index \<Rightarrow>
                if index < 0 \<or> index \<ge> int (length urls) then
                  parts_reply (Parts_error 400 ''Invalid part index'')
                else
                  (let s3Key = (case downloadS3Keys job of
                                  None \<Rightarrow> None | Some keys \<Rightarrow> js_index keys index);
                       fallback = parts_reply (Parts_redirect 302 (js_index urls index))
                   in case s3Key of
                        None \<Rightarrow> fallback
                      | Some k \<Rightarrow>
                         (case job_teamId job of
                            None \<Rightarrow> fallback
                          | Some team \<Rightarrow>
                             if team = [] then fallback
                             else
                               (case mint team k of
                                  Some freshUrl \<Rightarrow>
                                    \<lparr>parts_response = Parts_redirect 302 (Some freshUrl),
                                     parts_mint_calls = [(team, k)], parts_logs = []\<rparr>
                                | None \<Rightarrow>
                                    \<lparr>parts_response = Parts_redirect 302 (js_index urls index),
                                     parts_mint_calls = [(team, k)],
                                     parts_logs =
                                       [''Failed to generate fresh presigned URL:'']\<rparr>))))))"

text \<open>
  Lines 192 to 236: the checks before the job's state. The result is the early response,
  or the job and the part index the request is served from.
\<close>

definition parts_checks ::
  "parts_env \<Rightarrow> parts_request \<Rightarrow> parts_response + DownloadJob \<times> string" where
  "parts_checks env req =
     (if req_method req \<noteq> ''GET'' then
        Inl (Parts_error 405 (''Method '' @ req_method req @ '' Not Allowed''))
      else
        (case (query_linkId req, query_jobId req, query_partIndex req) of
           (Some linkId, Some jobId, Some partIndex) \<Rightarrow>
             if linkId = [] \<or> jobId = [] then
               Inl (Parts_error 400 ''linkId, jobId and partIndex required'')
             else
               (case getSession env linkId of
                  None \<Rightarrow> Inl (Parts_error 401 ''Session required'')
                | Some viewId \<Rightarrow>
                   (case findView env viewId of
                      Some (Some email) \<Rightarrow>
                        if email = [] then Inl (Parts_error 403 ''Viewer email not found'')
                        else
                          (case getJob env jobId of
                             None \<Rightarrow> Inl (Parts_error 404 ''Download job not found or expired'')
                           | Some job \<Rightarrow>
                               if job_linkId job \<noteq> Some linkId \<or>
                                  map_option (lowerTrim env) (viewerEmail job)
                                    \<noteq> Some (lowerTrim env email)
                               then Inl (Parts_error 403 ''Job does not belong to this viewer'')
                               else Inr (job, partIndex))
                    | _ \<Rightarrow> Inl (Parts_error 403 ''Viewer email not found'')))
         | _ \<Rightarrow> Inl (Parts_error 400 ''linkId, jobId and partIndex required'')))"

definition parts_handler :: "mint \<Rightarrow> parts_env \<Rightarrow> parts_request \<Rightarrow> parts_result" where
  "parts_handler mint env req =
     (case parts_checks env req of
        Inl r \<Rightarrow> parts_reply r
      | Inr (job, partIndex) \<Rightarrow> serve_part mint job partIndex)"

section \<open>Owner job listing: the handler\<close>

text \<open>
  The GET handler of \<^verbatim>\<open>pages/api/teams/[teamId]/datarooms/[id]/download/jobs.ts\<close>.
  \<open>session_user\<close> is the user id of the session, \<open>findTeamAccess\<close> tells whether the
  user is a member of the team, \<open>getDataroomJobs\<close> is the job store's listing; both
  may reject (\<open>Inl\<close> with the error's message), which the handler's
  \<^verbatim>\<open>catch\<close> answers with 500.
\<close>

record jobs_env =
  session_user :: "string option"
  findTeamAccess :: "string \<Rightarrow> string \<Rightarrow> string + bool"
  getDataroomJobs :: "string \<Rightarrow> string \<Rightarrow> nat \<Rightarrow> string + DownloadJob list"

datatype jobs_response =
  Jobs_end nat string
| Jobs_ok "DownloadJob list"
| Jobs_failed string

record jobs_result =
  jobs_response :: jobs_response
  jobs_mint_calls :: "(string \<times> S3KeyInfo) list"
  jobs_logs :: "string list"

text \<open>
  Lines 80 to 98, for one job. \<^verbatim>\<open>Promise.all\<close> over the keys asks for a fresh URL
  for every key and rejects when one of them rejects; the \<^verbatim>\<open>catch\<close> returns the
  job as stored and writes no log.
\<close>

definition wants_fresh_urls :: "DownloadJob \<Rightarrow> bool" where
  "wants_fresh_urls job =
     (job_status job = COMPLETED \<and> has_length (downloadS3Keys job)
      \<and> has_length (downloadUrls job))"

definition fresh_url_calls :: "string \<Rightarrow> DownloadJob \<Rightarrow> (string \<times> S3KeyInfo) list" where
  "fresh_url_calls teamId job =
     (if wants_fresh_urls job then
        (case downloadS3Keys job of None \<Rightarrow> [] | Some keys \<Rightarrow> map (\<lambda>k. (teamId, k)) keys)
      else [])"

definition with_fresh_urls :: "mint \<Rightarrow> string \<Rightarrow> DownloadJob \<Rightarrow> DownloadJob" where
  "with_fresh_urls mint teamId job =
     (if wants_fresh_urls job then
        (case downloadS3Keys job of
           None \<Rightarrow> job
         | Some keys \<Rightarrow>
            (case those (map (mint teamId) keys) of
               Some freshUrls \<Rightarrow> job\<lparr>downloadUrls := Some freshUrls\<rparr>
             | None \<Rightarrow> job))
      else job)"

definition jobs_handler ::
  "mint \<Rightarrow> jobs_env \<Rightarrow> string \<Rightarrow> string \<Rightarrow> string \<Rightarrow> int \<Rightarrow> jobs_result" where
  "jobs_handler mint env http_method teamId dataroomId now =
     (case session_user env of
        None \<Rightarrow>
          \<lparr>jobs_response = Jobs_end 401 ''Unauthorized'', jobs_mint_calls = [],
           jobs_logs = []\<rparr>
      | Some uid \<Rightarrow>
          if http_method = ''GET'' then
            (case findTeamAccess env uid teamId of
               Inl message \<Rightarrow>
                 \<lparr>jobs_response = Jobs_failed message, jobs_mint_calls = [],
                  jobs_logs = [''Error fetching download jobs:'']\<rparr>
             | Inr False \<Rightarrow>
                 \<lparr>jobs_response = Jobs_end 403 ''Unauthorized to access this team'',
                  jobs_mint_calls = [], jobs_logs = []\<rparr>
             | Inr True \<Rightarrow>
                 (case getDataroomJobs env dataroomId teamId 10 of
                    Inl message \<Rightarrow>
                      \<lparr>jobs_response = Jobs_failed message, jobs_mint_calls = [],
                       jobs_logs = [''Error fetching download jobs:'']\<rparr>
                  | Inr jobs \<Rightarrow>
                      \<lparr>jobs_response =
                         Jobs_ok (map (with_fresh_urls mint teamId) (userJobs uid now jobs)),
                       jobs_mint_calls =
                         concat (map (fresh_url_calls teamId) (userJobs uid now jobs)),
                       jobs_logs = []\<rparr>))
          else
            \<lparr>jobs_response = Jobs_end 405 (''Method '' @ http_method @ '' Not Allowed''),
             jobs_mint_calls = [], jobs_logs = []\<rparr>)"

section \<open>Example requests\<close>

text \<open>
  A viewer's COMPLETED job with two parts and the S3 keys of both, the same job without
  its keys, a request for a part of it, and an environment in which the viewer's
  session and the job are found.
\<close>

definition example_keys :: "S3KeyInfo list" where
  "example_keys =
     [\<lparr>bucket = ''bucket1'', key = ''exports/part1.zip'', region = ''us-east-1''\<rparr>,
      \<lparr>bucket = ''bucket1'', key = ''exports/part2.zip'', region = ''us-east-1''\<rparr>]"

definition example_viewer_job :: DownloadJob where
  "example_viewer_job =
     \<lparr>job_status = COMPLETED, userId = None, job_teamId = Some ''team_1'',
      job_linkId = Some ''link_1'', viewerEmail = Some ''ann@example.com'',
      downloadUrls = Some [''https://stored.example/part1'', ''https://stored.example/part2''],
      downloadS3Keys = Some example_keys, createdAt = Some 1699999000000,
      expiresAt = Some (Some 1700259200000)\<rparr>"

definition example_job_without_keys :: DownloadJob where
  "example_job_without_keys = example_viewer_job\<lparr>downloadS3Keys := None\<rparr>"

definition example_owner_job :: DownloadJob where
  "example_owner_job =
     example_viewer_job\<lparr>userId := Some ''user_1'', job_linkId := None, viewerEmail := None\<rparr>"

definition example_parts_env :: "DownloadJob \<Rightarrow> parts_env" where
  "example_parts_env job =
     \<lparr>getSession = (\<lambda>linkId. if linkId = ''link_1'' then Some ''view_1'' else None),
      findView = (\<lambda>viewId. if viewId = ''view_1'' then Some (Some ''ann@example.com'') else None),
      getJob = (\<lambda>jobId. if jobId = ''job_1'' then Some job else None),
      lowerTrim = (\<lambda>s. s)\<rparr>"

definition example_parts_request :: "string \<Rightarrow> parts_request" where
  "example_parts_request partIndex =
     \<lparr>req_method = ''GET'', query_linkId = Some ''link_1'', query_jobId = Some ''job_1'',
      query_partIndex = Some partIndex\<rparr>"

definition example_jobs_env :: "DownloadJob list \<Rightarrow> jobs_env" where
  "example_jobs_env jobs =
     \<lparr>session_user = Some ''user_1'',
      findTeamAccess = (\<lambda>uid teamId. Inr (uid = ''user_1'' \<and> teamId = ''team_1'')),
      getDataroomJobs = (\<lambda>dataroomId teamId limit. Inr jobs)\<rparr>"

text \<open>
  The store's answer for a dataroom of user \<open>user_1\<close>: a COMPLETED job that expires
  later, a COMPLETED job without an expiry, a PENDING job created long ago, a FAILED
  job created two hours before the request and one created a minute before it, and
  a PENDING job of another user. The request is made at 1700000000000.
\<close>

definition example_store_jobs :: "DownloadJob list" where
  "example_store_jobs =
     [example_owner_job,
      example_completed_job,
      example_owner_job\<lparr>job_status := PENDING, createdAt := Some 1600000000000,
        expiresAt := None\<rparr>,
      example_owner_job\<lparr>job_status := FAILED, createdAt := Some 1699992800000,
        expiresAt := None\<rparr>,
      example_owner_job\<lparr>job_status := FAILED, createdAt := Some 1699999940000,
        expiresAt := None\<rparr>,
      example_owner_job\<lparr>job_status := PENDING, userId := Some ''user_2''\<rparr>]"

section \<open>The notification task\<close>

text \<open>
  \<^verbatim>\<open>lib/trigger/dataroom-upload-notification.ts\<close>. The tables of the data store that
  the task queries are lists of rows with the columns it selects and filters on; a
  \<^verbatim>\<open>findUnique\<close> is the first row that satisfies its \<^verbatim>\<open>where\<close>, a
  \<^verbatim>\<open>findMany\<close> the rows that do. The store as a whole may be unreachable (\<open>None\<close>):
  the first query then rejects and the task throws, which the scheduler retries.
\<close>

datatype team_role = ADMIN | MANAGER | MEMBER

datatype member_status = ACTIVE | INACTIVE

record userTeam_row =
  ut_userId :: string
  ut_teamId :: string
  ut_role :: team_role
  ut_status :: member_status
  ut_email :: "string option"

record documentUpload_row =
  up_dataroomId :: string
  up_linkId :: string
  up_viewerId :: string
  uploadedAt :: int
  originalFilename :: "string option"
  up_viewer_email :: "string option"

record dataroom_row =
  dr_id :: string
  dr_name :: string
  dr_teamId :: string

record link_row =
  lk_id :: string
  lk_name :: "string option"
  lk_ownerId :: "string option"

record notification_db =
  documentUploads :: "documentUpload_row list"
  datarooms :: "dataroom_row list"
  links :: "link_row list"
  userTeams :: "userTeam_row list"

text \<open>The JSON body posted to the send endpoint.\<close>

record notification_body =
  nb_dataroomId :: string
  nb_dataroomName :: string
  nb_uploaderEmail :: "string option"
  nb_documentNames :: "string list"
  nb_linkName :: string
  nb_ownerEmail :: string
  nb_teamMembers :: "string option list"
  nb_teamId :: string

text \<open>
  The answer of \<^verbatim>\<open>fetch\<close> to the send endpoint: it rejects, or responds not ok with
  a text, or responds ok with a JSON body (\<open>None\<close> when reading it rejects).
\<close>

datatype send_result = Send_rejects | Send_not_ok string | Send_ok "string option"

datatype task_outcome = Returned | Thrown

record task_result =
  task_outcome :: task_outcome
  fetch_calls :: "notification_body list"
  task_logs :: "string list"

definition task_return :: "string \<Rightarrow> task_result" where
  "task_return line = \<lparr>task_outcome = Returned, fetch_calls = [], task_logs = [line]\<rparr>"

definition recentUploads ::
  "notification_db \<Rightarrow> UploadNotificationPayload \<Rightarrow> int \<Rightarrow> documentUpload_row list" where
  "recentUploads db payload now =
     sort_key (\<lambda>u. - uploadedAt u)
       (filter (\<lambda>u. up_dataroomId u = p_dataroomId payload \<and> up_linkId u = p_linkId payload
                   \<and> up_viewerId u = p_viewerId payload
                   \<and> uploadedAt u \<ge> now - 10 * 60 * 1000)
          (documentUploads db))"

definition team_users :: "notification_db \<Rightarrow> string \<Rightarrow> userTeam_row list" where
  "team_users db teamId =
     filter (\<lambda>u. (ut_role u = ADMIN \<or> ut_role u = MANAGER) \<and> ut_status u = ACTIVE
                 \<and> ut_teamId u = teamId)
       (userTeams db)"

definition adminEmail :: "userTeam_row list \<Rightarrow> string option" where
  "adminEmail users =
     (case find (\<lambda>u. ut_role u = ADMIN) users of None \<Rightarrow> None | Some u \<Rightarrow> ut_email u)"

text \<open>
  The other recipients: the users' emails but the admin's, then the link owner's when
  the owner is an active member of the team with an email not yet listed.
\<close>

definition teamMembers ::
  "notification_db \<Rightarrow> string \<Rightarrow> userTeam_row list \<Rightarrow> string \<Rightarrow> link_row option
     \<Rightarrow> string option list" where
  "teamMembers db teamId users admin link =
     (let members = filter (\<lambda>email. email \<noteq> Some admin) (map ut_email users);
          linkOwner =
            (case link of
               None \<Rightarrow> None
             | Some l \<Rightarrow>
                 if truthy (lk_ownerId l) then
                   find (\<lambda>u. Some (ut_userId u) = lk_ownerId l \<and> ut_teamId u = teamId
                               \<and> ut_status u = ACTIVE) (userTeams db)
                 else None)
      in case linkOwner of
           None \<Rightarrow> members
         | Some owner \<Rightarrow>
             if truthy (ut_email owner) \<and> ut_email owner \<noteq> Some admin
                \<and> ut_email owner \<notin> set members
             then members @ [ut_email owner] else members)"

text \<open>\<^verbatim>\<open>s.slice(-5)\<close>: the last five characters.\<close>

definition slice_last5 :: "string \<Rightarrow> string" where
  "slice_last5 s = drop (length s - 5) s"

definition notification_body_of ::
  "notification_db \<Rightarrow> UploadNotificationPayload \<Rightarrow> documentUpload_row list
     \<Rightarrow> dataroom_row \<Rightarrow> link_row option \<Rightarrow> userTeam_row list \<Rightarrow> string
     \<Rightarrow> notification_body" where
  "notification_body_of db payload uploads dataroom link users admin =
     \<lparr>nb_dataroomId = p_dataroomId payload,
      nb_dataroomName = dr_name dataroom,
      nb_uploaderEmail =
        (case uploads of
           [] \<Rightarrow> None
         | u # _ \<Rightarrow> if truthy (up_viewer_email u) then up_viewer_email u else None),
      nb_documentNames =
        map (\<lambda>u. case originalFilename u of
                    None \<Rightarrow> ''Untitled document''
                  | Some name \<Rightarrow> if name = [] then ''Untitled document'' else name)
          uploads,
      nb_linkName =
        (case (case link of None \<Rightarrow> None | Some l \<Rightarrow> lk_name l) of
           None \<Rightarrow> ''Link #'' @ slice_last5 (p_linkId payload)
         | Some name \<Rightarrow>
             if name = [] then ''Link #'' @ slice_last5 (p_linkId payload) else name),
      nb_ownerEmail = admin,
      nb_teamMembers = teamMembers db (p_teamId payload) users admin link,
      nb_teamId = p_teamId payload\<rparr>"

text \<open>Lines 136 to 180: the request to the send endpoint; no outcome of it throws.\<close>

definition deliver :: "(notification_body \<Rightarrow> send_result) \<Rightarrow> notification_body \<Rightarrow> task_result" where
  "deliver send body =
     \<lparr>task_outcome = Returned, fetch_calls = [body],
      task_logs =
        [case send body of
           Send_rejects \<Rightarrow> ''Error sending upload notification''
         | Send_not_ok text \<Rightarrow> ''Failed to send dataroom upload notification''
         | Send_ok None \<Rightarrow> ''Error sending upload notification''
         | Send_ok (Some message) \<Rightarrow> ''Upload notification sent successfully'']\<rparr>"

definition sendDataroomUploadNotificationTask ::
  "(notification_body \<Rightarrow> send_result) \<Rightarrow> notification_db option
     \<Rightarrow> UploadNotificationPayload \<Rightarrow> int \<Rightarrow> task_result" where
  "sendDataroomUploadNotificationTask send store payload now =
     (case store of
        None \<Rightarrow> \<lparr>task_outcome = Thrown, fetch_calls = [], task_logs = []\<rparr>
      | Some db \<Rightarrow>
         (let uploads = recentUploads db payload now in
          if uploads = [] then
            task_return ''No recent uploads found for this dataroom link''
          else
            (case find (\<lambda>d. dr_id d = p_dataroomId payload) (datarooms db) of
               None \<Rightarrow> task_return ''Dataroom not found''
             | Some dataroom \<Rightarrow>
                (let link = find (\<lambda>l. lk_id l = p_linkId payload) (links db);
                     users = team_users db (p_teamId payload)
                 in case adminEmail users of
                      None \<Rightarrow> task_return ''No admin email found for team''
                    | Some admin \<Rightarrow>
                       if admin = [] then task_return ''No admin email found for team''
                       else deliver send
                              (notification_body_of db payload uploads dataroom link users
                                 admin)))))"

text \<open>
  A store with one recent upload to dataroom \<open>d1\<close> over link \<open>l1\<close> by viewer \<open>v1\<close>,
  whose team has an active manager with an email and an active admin without one; and
  the same store with an email for the admin.
\<close>

definition example_db :: "string option \<Rightarrow> notification_db" where
  "example_db admin_email =
     \<lparr>documentUploads =
        [\<lparr>up_dataroomId = ''d1'', up_linkId = ''l1'', up_viewerId = ''v1'',
          uploadedAt = 1699999900000, originalFilename = Some ''deck.pdf'',
          up_viewer_email = Some ''ann@example.com''\<rparr>],
      datarooms = [\<lparr>dr_id = ''d1'', dr_name = ''Series A'', dr_teamId = ''t1''\<rparr>],
      links = [\<lparr>lk_id = ''l1'', lk_name = None, lk_ownerId = Some ''u2''\<rparr>],
      userTeams =
        [\<lparr>ut_userId = ''u2'', ut_teamId = ''t1'', ut_role = MANAGER, ut_status = ACTIVE,
          ut_email = Some ''bob@example.com''\<rparr>,
         \<lparr>ut_userId = ''u1'', ut_teamId = ''t1'', ut_role = ADMIN, ut_status = ACTIVE,
          ut_email = admin_email\<rparr>]\<rparr>"

definition example_payload :: UploadNotificationPayload where
  "example_payload =
     \<lparr>p_dataroomId = ''d1'', p_linkId = ''l1'', p_viewerId = ''v1'', p_teamId = ''t1''\<rparr>"

section \<open>Conversion with the DOCX sanitization fallback\<close>

text \<open>
  The conversion stage of \<^verbatim>\<open>convertFilesToPdfTask\<close>
  (\<^verbatim>\<open>lib/trigger/convert-files.ts\<close>, lines 85 to 241). An HTTP response is what the
  task reads of it: \<^verbatim>\<open>ok\<close>, \<^verbatim>\<open>status\<close>, \<^verbatim>\<open>statusText\<close>, the
  \<^verbatim>\<open>message\<close> of its JSON body (\<open>None\<close> when \<^verbatim>\<open>json()\<close> rejects, \<open>Some None\<close>
  when the body has no message) and its content-type header.
\<close>

record http_response =
  resp_ok :: bool
  resp_status :: nat
  resp_statusText :: string
  resp_message :: "string option option"
  resp_content_type :: "string option"

definition docx_type :: string where
  "docx_type = ''application/vnd.openxmlformats-officedocument.wordprocessingml.document''"

text \<open>\<^verbatim>\<open>s.includes(t)\<close>.\<close>

fun str_includes :: "string \<Rightarrow> string \<Rightarrow> bool" where
  "str_includes [] t = (t = [])"
| "str_includes (c # s) t = (prefix t (c # s) \<or> str_includes s t)"

text \<open>
  What the environment answers: the primary conversion request and the retry (\<open>None\<close>
  when \<^verbatim>\<open>fetch\<close> rejects, the timeout among the causes), the download of the DOCX
  from its signed URL, whether the downloaded bytes are written to the input file,
  whether the sanitizer script runs to its end, and whether its output file is read.
\<close>

record conversion_env =
  primary_request :: "http_response option"
  docx_download :: "http_response option"
  input_written :: bool
  sanitizer_runs :: bool
  output_read :: bool
  retry_request :: "http_response option"

datatype conversion_event = Primary_request | Download_docx | Sanitize | Retry_request | Cleanup

datatype conversion_error =
  Docx_fetch_rejected
| Docx_fetch_status nat string
| Docx_content_type string
| Rejected_in_fallback
| Timed_out_after_sanitization
| Failed_after_sanitization string nat
| Conversion_failed string nat

datatype conversion_outcome = Converted | Threw conversion_error

record conversion_result =
  conversion_outcome :: conversion_outcome
  conversion_events :: "conversion_event list"

text \<open>The response put in place of a primary request that rejects (lines 106 to 114).\<close>

definition timed_out_response :: http_response where
  "timed_out_response =
     \<lparr>resp_ok = False, resp_status = 504,
      resp_statusText = ''Conversion timed out or unreachable'', resp_message = None,
      resp_content_type = None\<rparr>"

text \<open>\<^verbatim>\<open>body.message ?? statusText\<close>, and \<^verbatim>\<open>statusText || "Unknown error"\<close> when
  reading the body rejects.\<close>

definition failure_message :: "http_response \<Rightarrow> string" where
  "failure_message r =
     (case resp_message r of
        Some (Some m) \<Rightarrow> m
      | Some None \<Rightarrow> resp_statusText r
      | None \<Rightarrow> if resp_statusText r = [] then ''Unknown error'' else resp_statusText r)"

definition unexpected_content_type :: "string option \<Rightarrow> bool" where
  "unexpected_content_type t =
     (case t of
        None \<Rightarrow> False
      | Some s \<Rightarrow> s \<noteq> [] \<and> \<not> str_includes s docx_type \<and> \<not> str_includes s ''application/octet-stream'')"

text \<open>
  Lines 125 to 225: the \<^verbatim>\<open>try\<close> block of the DOCX branch with its
  \<^verbatim>\<open>finally\<close>, which removes the two temporary files on every path.
\<close>

definition sanitize_and_retry :: "conversion_env \<Rightarrow> conversion_result" where
  "sanitize_and_retry env =
     (case docx_download env of
        None \<Rightarrow>
          \<lparr>conversion_outcome = Threw Docx_fetch_rejected,
           conversion_events = [Download_docx, Cleanup]\<rparr>
      | Some d \<Rightarrow>
          if \<not> resp_ok d then
            \<lparr>conversion_outcome = Threw (Docx_fetch_status (resp_status d) (resp_statusText d)),
             conversion_events = [Download_docx, Cleanup]\<rparr>
          else if unexpected_content_type (resp_content_type d) then
            \<lparr>conversion_outcome =
               Threw (Docx_content_type (case resp_content_type d of Some s \<Rightarrow> s | None \<Rightarrow> [])),
             conversion_events = [Download_docx, Cleanup]\<rparr>
          else if \<not> input_written env then
            \<lparr>conversion_outcome = Threw Rejected_in_fallback,
             conversion_events = [Download_docx, Cleanup]\<rparr>
          else if \<not> sanitizer_runs env then
            \<lparr>conversion_outcome = Threw Rejected_in_fallback,
             conversion_events = [Download_docx, Sanitize, Cleanup]\<rparr>
          else if \<not> output_read env then
            \<lparr>conversion_outcome = Threw Timed_out_after_sanitization,
             conversion_events = [Download_docx, Sanitize, Cleanup]\<rparr>
          else
            (case retry_request env of
               None \<Rightarrow>
                 \<lparr>conversion_outcome = Threw Timed_out_after_sanitization,
                  conversion_events = [Download_docx, Sanitize, Retry_request, Cleanup]\<rparr>
             | Some r \<Rightarrow>
                 if \<not> resp_ok r then
                   \<lparr>conversion_outcome =
                      Threw (Failed_after_sanitization (failure_message r) (resp_status r)),
                    conversion_events = [Download_docx, Sanitize, Retry_request, Cleanup]\<rparr>
                 else
                   \<lparr>conversion_outcome = Converted,
                    conversion_events = [Download_docx, Sanitize, Retry_request, Cleanup]\<rparr>))"

definition convert :: "conversion_env \<Rightarrow> string \<Rightarrow> conversion_result" where
  "convert env contentType =
     (let conversionResponse =
            (case primary_request env of None \<Rightarrow> timed_out_response | Some r \<Rightarrow> r)
      in if \<not> resp_ok conversionResponse then
           (if contentType = docx_type then
              (let r = sanitize_and_retry env
               in r\<lparr>conversion_events := Primary_request # conversion_events r\<rparr>)
            else
              \<lparr>conversion_outcome =
                 Threw (Conversion_failed (failure_message conversionResponse)
                          (resp_status conversionResponse)),
               conversion_events = [Primary_request]\<rparr>)
         else \<lparr>conversion_outcome = Converted, conversion_events = [Primary_request]\<rparr>)"

definition primary_failed :: "conversion_env \<Rightarrow> bool" where
  "primary_failed env = (case primary_request env of None \<Rightarrow> True | Some r \<Rightarrow> \<not> resp_ok r)"

text \<open>The DOCX was downloaded with an accepted content type and written to the input file.\<close>

definition docx_ready :: "conversion_env \<Rightarrow> bool" where
  "docx_ready env =
     (case docx_download env of
        None \<Rightarrow> False
      | Some d \<Rightarrow> resp_ok d \<and> \<not> unexpected_content_type (resp_content_type d)
                   \<and> input_written env)"

definition retry_succeeds :: "conversion_env \<Rightarrow> bool" where
  "retry_succeeds env = (case retry_request env of None \<Rightarrow> False | Some r \<Rightarrow> resp_ok r)"

text \<open>
  Two environments in which the primary request answers 500: in the first the DOCX
  is downloaded and sanitized and the retry answers 500 too; in the second the
  download of the DOCX answers 403.
\<close>

definition example_error_response :: "nat \<Rightarrow> string \<Rightarrow> http_response" where
  "example_error_response code text =
     \<lparr>resp_ok = False, resp_status = code, resp_statusText = text,
      resp_message = Some None, resp_content_type = None\<rparr>"

definition example_ok_response :: http_response where
  "example_ok_response =
     \<lparr>resp_ok = True, resp_status = 200, resp_statusText = ''OK'', resp_message = None,
      resp_content_type = Some ''application/octet-stream''\<rparr>"

definition example_conversion_env :: conversion_env where
  "example_conversion_env =
     \<lparr>primary_request = Some (example_error_response 500 ''Internal Server Error''),
      docx_download = Some example_ok_response, input_written = True,
      sanitizer_runs = True, output_read = True,
      retry_request = Some (example_error_response 500 ''Internal Server Error'')\<rparr>"

definition example_forbidden_env :: conversion_env where
  "example_forbidden_env =
     example_conversion_env\<lparr>docx_download := Some (example_error_response 403 ''Forbidden'')\<rparr>"

section \<open>Presigned URLs\<close>

text \<open>
  \<^verbatim>\<open>parseS3PresignedUrl\<close> of the presign module (the unnamed source file with
  \<^verbatim>\<open>generateFreshPresignedUrl\<close>). The function reads two fields of
  \<^verbatim>\<open>new URL(presignedUrl)\<close>, so a parsed URL is the record of these two; the
  platform's URL parser itself is a parameter \<open>new_URL\<close> of the model (\<open>None\<close> when
  the constructor throws). A hostname of an https URL is ASCII, in lower case and
  free of line terminators, so the \<^verbatim>\<open>.\<close> of a pattern matches each of its
  characters.
\<close>

record url =
  hostname :: string
  pathname :: string

datatype parse_error = Invalid_URL | URIError | Unable_to_parse_S3_URL

definition strip_prefix :: "string \<Rightarrow> string \<Rightarrow> string option" where
  "strip_prefix p s = (if prefix p s then Some (drop (length p) s) else None)"

definition strip_suffix :: "string \<Rightarrow> string \<Rightarrow> string option" where
  "strip_suffix p s = (if suffix p s then Some (take (length s - length p) s) else None)"

text \<open>The part of a host name after its last dot (the whole name when it has none).\<close>

definition last_label :: "string \<Rightarrow> string" where
  "last_label s = rev (takeWhile (\<lambda>c. c \<noteq> CHR ''.'') (rev s))"

text \<open>
  \<^verbatim>\<open>hostname.match(/^s3\.([^.]+)\.amazonaws\.com$/)\<close>: the captured region.
\<close>

definition pathStyleMatch :: "string \<Rightarrow> string option" where
  "pathStyleMatch h =
     (case strip_prefix ''s3.'' h of
        None \<Rightarrow> None
      | Some rest \<Rightarrow>
          (case strip_suffix ''.amazonaws.com'' rest of
             None \<Rightarrow> None
           | Some r \<Rightarrow> if r \<noteq> [] \<and> CHR ''.'' \<notin> set r then Some r else None))"

text \<open>
  \<^verbatim>\<open>hostname.match(/^(.+)\.s3\.([^.]+)\.amazonaws\.com$/)\<close>: the captured bucket and
  region. The region has no dot, so it can only be the last label before
  \<^verbatim>\<open>.amazonaws.com\<close>, and the bucket is what stands before \<^verbatim>\<open>.s3.\<close> and it.
\<close>

definition virtualMatch :: "string \<Rightarrow> (string \<times> string) option" where
  "virtualMatch h =
     (case strip_suffix ''.amazonaws.com'' h of
        None \<Rightarrow> None
      | Some m \<Rightarrow>
          (let r = last_label m in
           if r = [] then None
           else
             (case strip_suffix ''.s3.'' (take (length m - length r) m) of
                None \<Rightarrow> None
              | Some b \<Rightarrow> if b \<noteq> [] then Some (b, r) else None)))"

text \<open>\<^verbatim>\<open>hostname.match(/^(.+)\.s3\.amazonaws\.com$/)\<close>: the captured bucket.\<close>

definition virtualNoRegionMatch :: "string \<Rightarrow> string option" where
  "virtualNoRegionMatch h =
     (case strip_suffix ''.s3.amazonaws.com'' h of
        None \<Rightarrow> None
      | Some b \<Rightarrow> if b \<noteq> [] then Some b else None)"

text \<open>\<^verbatim>\<open>s.split("/")\<close> and \<^verbatim>\<open>parts.join("/")\<close>.\<close>

fun split_on :: "char \<Rightarrow> string \<Rightarrow> string list" where
  "split_on d [] = [[]]"
| "split_on d (c # s) =
     (if c = d then [] # split_on d s
      else (case split_on d s of [] \<Rightarrow> [[c]] | part # parts \<Rightarrow> (c # part) # parts))"

fun join_with :: "string \<Rightarrow> string list \<Rightarrow> string" where
  "join_with sep [] = []"
| "join_with sep [part] = part"
| "join_with sep (part # parts) = part @ sep @ join_with sep parts"

text \<open>
  \<^verbatim>\<open>decodeURIComponent\<close> on UTF-8 bytes. An escape \<^verbatim>\<open>%XX\<close> below 0x80 gives that
  character; an escape from 0xC0 to 0xF7 starts a sequence of two, three or four
  escapes that must be a well-formed UTF-8 encoding of a code point (Unicode, table
  3-7), and gives its bytes; every other use of \<^verbatim>\<open>%\<close> throws URIError. The
  decoder reads from the left with the octets of the sequence under way and the number
  of continuation escapes still due.
\<close>

definition hex_digit :: "char \<Rightarrow> nat option" where
  "hex_digit c =
     (let n = (of_char c :: nat) in
      if 48 \<le> n \<and> n \<le> 57 then Some (n - 48)
      else if 65 \<le> n \<and> n \<le> 70 then Some (n - 55)
      else if 97 \<le> n \<and> n \<le> 102 then Some (n - 87)
      else None)"

definition hex_octet :: "char \<Rightarrow> char \<Rightarrow> nat option" where
  "hex_octet a b =
     (case (hex_digit a, hex_digit b) of (Some x, Some y) \<Rightarrow> Some (16 * x + y) | _ \<Rightarrow> None)"

definition well_formed_utf8 :: "nat list \<Rightarrow> bool" where
  "well_formed_utf8 octets =
     (case octets of
        [a, b] \<Rightarrow> 0xC2 \<le> a \<and> a \<le> 0xDF
      | [a, b, c] \<Rightarrow>
          (a = 0xE0 \<and> 0xA0 \<le> b) \<or> (0xE1 \<le> a \<and> a \<le> 0xEC) \<or> (a = 0xED \<and> b \<le> 0x9F)
          \<or> (0xEE \<le> a \<and> a \<le> 0xEF)
      | [a, b, c, d] \<Rightarrow>
          (a = 0xF0 \<and> 0x90 \<le> b) \<or> (0xF1 \<le> a \<and> a \<le> 0xF3) \<or> (a = 0xF4 \<and> b \<le> 0x8F)
      | _ \<Rightarrow> False)"

definition emit :: "nat list \<Rightarrow> parse_error + string \<Rightarrow> parse_error + string" where
  "emit octets r = (case r of Inl e \<Rightarrow> Inl e | Inr t \<Rightarrow> Inr (map char_of octets @ t))"

fun decode_from :: "nat list \<Rightarrow> nat \<Rightarrow> string \<Rightarrow> parse_error + string" where
  "decode_from octets due [] = (if due = 0 then Inr [] else Inl URIError)"
| "decode_from octets due (c # s) =
     (if c = CHR ''%'' then
        (case s of
           a # b # rest \<Rightarrow>
             (case hex_octet a b of
                None \<Rightarrow> Inl URIError
              | Some B \<Rightarrow>
                  if due = 0 then
                    (if B < 0x80 then emit [B] (decode_from [] 0 rest)
                     else if B < 0xC0 \<or> 0xF8 \<le> B then Inl URIError
                     else decode_from [B] (if B < 0xE0 then 1 else if B < 0xF0 then 2 else 3)
                            rest)
                  else if 0x80 \<le> B \<and> B < 0xC0 then
                    (if due = 1 then
                       (if well_formed_utf8 (octets @ [B])
                        then emit (octets @ [B]) (decode_from [] 0 rest)
                        else Inl URIError)
                     else decode_from (octets @ [B]) (due - 1) rest)
                  else Inl URIError)
         | _ \<Rightarrow> Inl URIError)
      else if due = 0 then
        (case decode_from [] 0 s of Inl e \<Rightarrow> Inl e | Inr t \<Rightarrow> Inr (c # t))
      else Inl URIError)"

definition decodeURIComponent :: "string \<Rightarrow> parse_error + string" where
  "decodeURIComponent s = decode_from [] 0 s"

text \<open>\<^verbatim>\<open>parts.map(decodeURIComponent)\<close>: the first part that throws ends the call.\<close>

fun decode_parts :: "string list \<Rightarrow> parse_error + string list" where
  "decode_parts [] = Inr []"
| "decode_parts (p # ps) =
     (case decodeURIComponent p of
        Inl e \<Rightarrow> Inl e
      | Inr d \<Rightarrow> (case decode_parts ps of Inl e \<Rightarrow> Inl e | Inr ds \<Rightarrow> Inr (d # ds)))"

text \<open>
  Lines 21 to 54, on the parsed URL. \<^verbatim>\<open>split\<close> gives at least one part; were there
  none, \<^verbatim>\<open>pathParts[0]\<close> would be undefined, which \<^verbatim>\<open>decodeURIComponent\<close> turns
  into the text \<^verbatim>\<open>undefined\<close>.
\<close>

definition parse_location :: "url \<Rightarrow> parse_error + S3KeyInfo" where
  "parse_location u =
     (case pathStyleMatch (hostname u) of
        Some r \<Rightarrow>
          (case split_on CHR ''/'' (drop 1 (pathname u)) of
             [] \<Rightarrow> Inr \<lparr>bucket = ''undefined'', key = [], region = r\<rparr>
           | first # others \<Rightarrow>
               (case decodeURIComponent first of
                  Inl e \<Rightarrow> Inl e
                | Inr b \<Rightarrow>
                    (case decode_parts others of
                       Inl e \<Rightarrow> Inl e
                     | Inr ks \<Rightarrow> Inr \<lparr>bucket = b, key = join_with ''/'' ks, region = r\<rparr>)))
      | None \<Rightarrow>
          (case virtualMatch (hostname u) of
             Some (b, r) \<Rightarrow>
               (case decodeURIComponent (drop 1 (pathname u)) of
                  Inl e \<Rightarrow> Inl e
                | Inr k \<Rightarrow> Inr \<lparr>bucket = b, key = k, region = r\<rparr>)
           | None \<Rightarrow>
               (case virtualNoRegionMatch (hostname u) of
                  Some b \<Rightarrow>
                    (case decodeURIComponent (drop 1 (pathname u)) of
                       Inl e \<Rightarrow> Inl e
                     | Inr k \<Rightarrow> Inr \<lparr>bucket = b, key = k, region = ''us-east-1''\<rparr>)
                | None \<Rightarrow> Inl Unable_to_parse_S3_URL)))"

definition parseS3PresignedUrl ::
  "(string \<Rightarrow> url option) \<Rightarrow> string \<Rightarrow> parse_error + S3KeyInfo" where
  "parseS3PresignedUrl new_URL presignedUrl =
     (case new_URL presignedUrl of None \<Rightarrow> Inl Invalid_URL | Some u \<Rightarrow> parse_location u)"











definition example_new_URL :: "string \<Rightarrow> url option" where
  "example_new_URL s =
     (if s = ''https://bucket1.s3.us-east-1.amazonaws.com/exports/x.zip'' then
        Some \<lparr>hostname = ''bucket1.s3.us-east-1.amazonaws.com'', pathname = ''/exports/x.zip''\<rparr>
      else if s = ''https://s3.us-east-1.amazonaws.com/bucket1/exports/x.zip'' then
        Some \<lparr>hostname = ''s3.us-east-1.amazonaws.com'', pathname = ''/bucket1/exports/x.zip''\<rparr>
      else if s = ''https://bucket1.s3.amazonaws.com/exports/x.zip'' then
        Some \<lparr>hostname = ''bucket1.s3.amazonaws.com'', pathname = ''/exports/x.zip''\<rparr>
      else if s = ''https://bucket1.s3.us-east-1.amazonaws.com/exports/100%25%20caf%C3%A9.zip''
      then
        Some \<lparr>hostname = ''bucket1.s3.us-east-1.amazonaws.com'',
              pathname = ''/exports/100%25%20caf%C3%A9.zip''\<rparr>
      else if s = ''https://s3.us-east-1.amazonaws.com/bucket1/exports/100%25%20caf%C3%A9.zip''
      then
        Some \<lparr>hostname = ''s3.us-east-1.amazonaws.com'',
              pathname = ''/bucket1/exports/100%25%20caf%C3%A9.zip''\<rparr>
      else if s = ''https://bucket1.s3.amazonaws.com/exports/100%25%20caf%C3%A9.zip'' then
        Some \<lparr>hostname = ''bucket1.s3.amazonaws.com'',
              pathname = ''/exports/100%25%20caf%C3%A9.zip''\<rparr>
      else None)"

section \<open>Download batch endpoint\<close>

text \<open>
  The download-batch handler (lines 70 to 180 of
  \<^verbatim>\<open>pages/api/jobs/send-dataroom-upload-notification.ts\<close>). Of the request body the
  model keeps the four required fields (the optional ones are passed to the backend
  as they come). The environment answers for the process and the backend:
  \<open>internal_api_key\<close> is the secret of the process, \<open>storage_config\<close> gives the
  team's Lambda function name (\<open>Inl\<close> with the message when the client or the
  configuration cannot be obtained), \<open>lambda_send\<close> is the invocation (\<open>Inl\<close> when
  it rejects, else the decoded text of the response's payload, \<open>None\<close> when there is
  no payload), \<open>json_envelope\<close> is \<^verbatim>\<open>JSON.parse\<close> of a non-empty payload text with
  the two fields read of it, \<open>json_body\<close> is \<^verbatim>\<open>JSON.parse\<close> of a non-empty body
  text with its \<^verbatim>\<open>downloadUrl\<close>; both are \<open>Inl\<close> with the message when they
  throw.
\<close>

record batch_request =
  batch_method :: string
  authorization :: "string option"
  body_teamId :: "string option"
  body_sourceBucket :: "string option"
  body_fileKeys :: "string list option"
  body_folderStructure :: "(string \<times> string) list option"

record lambda_invocation =
  inv_functionName :: string
  inv_sourceBucket :: string
  inv_fileKeys :: "string list"
  inv_folderStructure :: "(string \<times> string) list"

record lambda_envelope =
  env_errorMessage :: "string option"
  env_body :: "string option"

record batch_env =
  internal_api_key :: "string option"
  storage_config :: "string \<Rightarrow> string + string"
  lambda_send :: "lambda_invocation \<Rightarrow> string + string option"
  json_envelope :: "string \<Rightarrow> string + lambda_envelope"
  json_body :: "string \<Rightarrow> string + string option"
  batch_new_URL :: "string \<Rightarrow> url option"

datatype batch_response =
  Batch_end nat string
| Batch_message nat string
| Batch_failed string
| Batch_ok "string option" "S3KeyInfo option"

record batch_result =
  batch_response :: batch_response
  batch_invocations :: "lambda_invocation list"
  batch_logs :: "string list"

text \<open>\<^verbatim>\<open>authHeader?.split(" ")[1]\<close>.\<close>

definition bearer_token :: "string option \<Rightarrow> string option" where
  "bearer_token authHeader =
     (case authHeader of None \<Rightarrow> None | Some h \<Rightarrow> js_index (split_on CHR '' '' h) 1)"

text \<open>Line 116: the four required fields, when none of them is falsy.\<close>

definition required_fields ::
  "batch_request \<Rightarrow> (string \<times> string \<times> string list \<times> (string \<times> string) list) option" where
  "required_fields req =
     (case (body_teamId req, body_sourceBucket req, body_fileKeys req,
            body_folderStructure req) of
        (Some teamId, Some sourceBucket, Some fileKeys, Some folderStructure) \<Rightarrow>
          if teamId = [] \<or> sourceBucket = [] then None
          else Some (teamId, sourceBucket, fileKeys, folderStructure)
      | _ \<Rightarrow> None)"

text \<open>The \<^verbatim>\<open>catch\<close> of lines 173 to 179.\<close>

definition batch_failure :: "string \<Rightarrow> lambda_invocation list \<Rightarrow> batch_result" where
  "batch_failure message invocations =
     \<lparr>batch_response = Batch_failed message, batch_invocations = invocations,
      batch_logs = [''Error processing download batch:'']\<rparr>"

text \<open>
  \<^verbatim>\<open>JSON.parse\<close> throws on the empty text, and on an undefined body, which it reads
  as the text \<^verbatim>\<open>undefined\<close>.
\<close>

definition parse_envelope :: "batch_env \<Rightarrow> string \<Rightarrow> string + lambda_envelope" where
  "parse_envelope env text =
     (if text = [] then Inl ''Unexpected end of JSON input'' else json_envelope env text)"

definition parse_body :: "batch_env \<Rightarrow> string option \<Rightarrow> string + string option" where
  "parse_body env body =
     (case body of
        None \<Rightarrow> Inl ''\"undefined\" is not valid JSON''
      | Some text \<Rightarrow>
          if text = [] then Inl ''Unexpected end of JSON input'' else json_body env text)"

text \<open>Lines 160 to 168: the S3 key info, undefined when the URL does not parse.\<close>

definition s3KeyInfo_of :: "batch_env \<Rightarrow> string option \<Rightarrow> S3KeyInfo option" where
  "s3KeyInfo_of env downloadUrl =
     (case downloadUrl of
        None \<Rightarrow> None
      | Some u \<Rightarrow>
          (case parseS3PresignedUrl (batch_new_URL env) u of
             Inl e \<Rightarrow> None
           | Inr info \<Rightarrow> Some info))"

text \<open>Lines 145 to 172: the response of the backend.\<close>

definition batch_reply ::
  "batch_env \<Rightarrow> lambda_invocation \<Rightarrow> string + string option \<Rightarrow> batch_result" where
  "batch_reply env invocation response =
     (case response of
        Inl message \<Rightarrow> batch_failure message [invocation]
      | Inr None \<Rightarrow> batch_failure ''Lambda response payload is undefined or empty'' [invocation]
      | Inr (Some text) \<Rightarrow>
          (case parse_envelope env text of
             Inl message \<Rightarrow> batch_failure message [invocation]
           | Inr payload \<Rightarrow>
               (case env_errorMessage payload of
                  None \<Rightarrow>
                    (case parse_body env (env_body payload) of
                       Inl message \<Rightarrow> batch_failure message [invocation]
                     | Inr downloadUrl \<Rightarrow>
                         \<lparr>batch_response = Batch_ok downloadUrl (s3KeyInfo_of env downloadUrl),
                          batch_invocations = [invocation], batch_logs = []\<rparr>)
                | Some errorMessage \<Rightarrow>
                    if errorMessage \<noteq> [] then
                      batch_failure (''Lambda error: '' @ errorMessage) [invocation]
                    else
                      (case parse_body env (env_body payload) of
                         Inl message \<Rightarrow> batch_failure message [invocation]
                       | Inr downloadUrl \<Rightarrow>
                           \<lparr>batch_response =
                              Batch_ok downloadUrl (s3KeyInfo_of env downloadUrl),
                            batch_invocations = [invocation], batch_logs = []\<rparr>))))"

definition batch_handler :: "batch_env \<Rightarrow> batch_request \<Rightarrow> batch_result" where
  "batch_handler env req =
     (if batch_method req \<noteq> ''POST'' then
        \<lparr>batch_response = Batch_end 405 (''Method '' @ batch_method req @ '' Not Allowed''),
         batch_invocations = [], batch_logs = []\<rparr>
      else if bearer_token (authorization req) \<noteq> internal_api_key env then
        \<lparr>batch_response = Batch_message 401 ''Unauthorized'', batch_invocations = [],
         batch_logs = []\<rparr>
      else
        (case required_fields req of
           None \<Rightarrow>
             \<lparr>batch_response = Batch_message 400 ''Missing required parameters'',
              batch_invocations = [], batch_logs = []\<rparr>
         | Some (teamId, sourceBucket, fileKeys, folderStructure) \<Rightarrow>
             (case storage_config env teamId of
                Inl message \<Rightarrow> batch_failure message []
              | Inr functionName \<Rightarrow>
                  (let invocation = \<lparr>inv_functionName = functionName, inv_sourceBucket = sourceBucket,
                              inv_fileKeys = fileKeys, inv_folderStructure = folderStructure\<rparr>
                   in batch_reply env invocation (lambda_send env invocation)))))"

text \<open>
  A request with all four fields and the right token, and an environment whose
  backend answers with the given payload text. Its JSON reader knows three payloads:
  an error envelope, a result, and a result whose envelope also holds an empty
  \<^verbatim>\<open>errorMessage\<close>; and one body, the JSON text of a download URL. \<open>json_quoted\<close>
  writes a text as a JSON string literal, as the body is carried in the envelope.
\<close>

definition example_batch_request :: batch_request where
  "example_batch_request =
     \<lparr>batch_method = ''POST'', authorization = Some ''Bearer secret'',
      body_teamId = Some ''team_1'', body_sourceBucket = Some ''bucket1'',
      body_fileKeys = Some [''a.pdf'', ''b.pdf''],
      body_folderStructure = Some [(''a.pdf'', ''/'')]\<rparr>"

definition json_quoted :: "string \<Rightarrow> string" where
  "json_quoted s =
     [CHR 0x22] @
     concat (map (\<lambda>c. if c = CHR 0x22 \<or> c = CHR 0x5C then [CHR 0x5C, c] else [c]) s) @
     [CHR 0x22]"

definition example_body :: string where
  "example_body =
     ''{\"downloadUrl\":\"https://bucket1.s3.us-east-1.amazonaws.com/exports/x.zip\"}''"

definition example_result_payload :: string where
  "example_result_payload = ''{\"statusCode\":200,\"body\":'' @ json_quoted example_body @ ''}''"

definition example_empty_error_payload :: string where
  "example_empty_error_payload =
     ''{\"errorMessage\":\"\",\"body\":'' @ json_quoted example_body @ ''}''"

definition example_batch_env :: "string option \<Rightarrow> batch_env" where
  "example_batch_env payload =
     \<lparr>internal_api_key = Some ''secret'',
      storage_config = (\<lambda>teamId. Inr ''bulk-download''),
      lambda_send = (\<lambda>invocation. Inr payload),
      json_envelope =
        (\<lambda>text. if text = ''{\"errorMessage\":\"Task timed out\"}''
               then Inr \<lparr>env_errorMessage = Some ''Task timed out'', env_body = None\<rparr>
               else if text = example_result_payload
               then Inr \<lparr>env_errorMessage = None, env_body = Some example_body\<rparr>
               else if text = example_empty_error_payload
               then Inr \<lparr>env_errorMessage = Some [], env_body = Some example_body\<rparr>
               else Inl ''Unexpected token''),
      json_body =
        (\<lambda>text. if text = example_body
               then Inr (Some ''https://bucket1.s3.us-east-1.amazonaws.com/exports/x.zip'')
               else Inl ''Unexpected token''),
      batch_new_URL = example_new_URL\<rparr>"

chapter \<open>Properties\<close>

section \<open>The visibility filter\<close>

lemma date_gt_Some: "date_gt a (Some y) \<longleftrightarrow> (\<exists>x. a = Some x \<and> y < x)"
  by (cases a) (simp_all add: date_gt_def)

lemma job_filter_iff:
  "job_filter uid now job \<longleftrightarrow>
     userId job = Some uid \<and>
     (job_status job = PENDING \<or> job_status job = PROCESSING
      \<or> (job_status job = COMPLETED \<and> (\<exists>e. expiresAt job = Some (Some e) \<and> now < e))
      \<or> (job_status job = FAILED \<and> (\<exists>c. createdAt job = Some c \<and> now - 3600000 < c)))"
  by (cases "job_status job"; cases "expiresAt job")
     (auto simp add: job_filter_def date_gt_Some oneHourAgo_def)

section \<open>The notification debouncer\<close>

lemma matchingRuns_iff:
  "r \<in> set (matchingRuns (requiredTags d l v) allRuns) \<longleftrightarrow>
     r \<in> set allRuns \<and>
     (\<exists>ts. run_tags r = Some ts \<and> ''dataroom_'' @ d \<in> set ts \<and> ''link_'' @ l \<in> set ts
        \<and> ''viewer_'' @ v \<in> set ts)"
  by (cases "run_tags r") (auto simp add: matchingRuns_def requiredTags_def tags_include_def)

lemma matching_upload_tags:
  "run_tags r = Some (upload_tags t' d' l' v') \<Longrightarrow>
     (r \<in> set (matchingRuns (requiredTags d l v) allRuns) \<longleftrightarrow>
        r \<in> set allRuns \<and> d' = d \<and> l' = l \<and> v' = v)"
  by (auto simp add: matchingRuns_def requiredTags_def tags_include_def upload_tags_def)

text \<open>
  C3. Of the pending runs the scheduler's tag query returns, step 4 cancels exactly
  those whose tags contain all three required tags (dataroom, link, viewer) of the
  event; a run without tags, or with only some of them, is not cancelled. A run
  that this route scheduled for dataroom d', link l', viewer v' is cancelled by an
  event of dataroom d, link l, viewer v only when d' = d, l' = l and v' = v.
\<close>

theorem cancel_only_full_tag_match:
  "(r \<in> set (matchingRuns (requiredTags d l v) allRuns) \<longleftrightarrow>
      r \<in> set allRuns \<and>
      (\<exists>ts. run_tags r = Some ts \<and> ''dataroom_'' @ d \<in> set ts \<and> ''link_'' @ l \<in> set ts
         \<and> ''viewer_'' @ v \<in> set ts)) \<and>
   (list_runs (requiredTags d l v) = Some allRuns \<longrightarrow>
      cancel_calls (notify True t d l v doc now list_runs cancel_ok) =
        map run_id (matchingRuns (requiredTags d l v) allRuns)) \<and>
   (run_tags r = Some (upload_tags t' d' l' v') \<longrightarrow>
      (r \<in> set (matchingRuns (requiredTags d l v) allRuns) \<longleftrightarrow>
         r \<in> set allRuns \<and> d' = d \<and> l' = l \<and> v' = v))"
proof (intro conjI impI)
  show "r \<in> set (matchingRuns (requiredTags d l v) allRuns) \<longleftrightarrow>
      r \<in> set allRuns \<and>
      (\<exists>ts. run_tags r = Some ts \<and> ''dataroom_'' @ d \<in> set ts \<and> ''link_'' @ l \<in> set ts
         \<and> ''viewer_'' @ v \<in> set ts)"
    by (rule matchingRuns_iff)
next
  assume "list_runs (requiredTags d l v) = Some allRuns"
  then show "cancel_calls (notify True t d l v doc now list_runs cancel_ok) =
        map run_id (matchingRuns (requiredTags d l v) allRuns)"
    by (simp add: notify_def Let_def)
next
  assume "run_tags r = Some (upload_tags t' d' l' v')"
  then show "r \<in> set (matchingRuns (requiredTags d l v) allRuns) \<longleftrightarrow>
         r \<in> set allRuns \<and> d' = d \<and> l' = l \<and> v' = v"
    by (rule matching_upload_tags)
qed

theorem cancel_only_full_tag_match_witness:
  "cancel_calls
     (notify True ''t1'' ''d1'' ''l1'' ''v1'' ''doc_9'' 1700000000000
        (\<lambda>tags. Some example_runs) (\<lambda>i. True)) = [''run_1''] \<and>
   \<lparr>run_id = ''run_2'', run_tags = Some (upload_tags ''t1'' ''d1'' ''l1'' ''v2'')\<rparr>
     \<notin> set (matchingRuns (requiredTags ''d1'' ''l1'' ''v1'') example_runs)"
proof -
  let ?r2 = "\<lparr>run_id = ''run_2'', run_tags = Some (upload_tags ''t1'' ''d1'' ''l1'' ''v2'')\<rparr>"
  have m: "matchingRuns (requiredTags ''d1'' ''l1'' ''v1'') example_runs =
      [\<lparr>run_id = ''run_1'', run_tags = Some (upload_tags ''t1'' ''d1'' ''l1'' ''v1'')\<rparr>]"
    by (simp add: matchingRuns_def requiredTags_def example_runs_def upload_tags_def
        tags_include_def)
  from cancel_only_full_tag_match [of ?r2 "''d1''" "''l1''" "''v1''" example_runs
      "\<lambda>tags. Some example_runs" "''t1''" "''doc_9''" 1700000000000 "\<lambda>i. True"
      "''t1''" "''d1''" "''l1''" "''v2''"]
  show ?thesis by (simp add: m)
qed

lemma hyphen_split:
  "CHR ''-'' \<notin> set a \<Longrightarrow> CHR ''-'' \<notin> set a' \<Longrightarrow>
     (a @ CHR ''-'' # r = a' @ CHR ''-'' # r') = (a = a' \<and> r = r')"
proof (induction a arbitrary: a')
  case Nil
  then show ?case by (cases a') auto
next
  case (Cons x a)
  then show ?case by (cases a') auto
qed

lemma upload_idempotencyKey_inj:
  assumes "CHR ''-'' \<notin> set t" "CHR ''-'' \<notin> set d" "CHR ''-'' \<notin> set l" "CHR ''-'' \<notin> set v"
    and "CHR ''-'' \<notin> set t'" "CHR ''-'' \<notin> set d'" "CHR ''-'' \<notin> set l'" "CHR ''-'' \<notin> set v'"
  shows "upload_idempotencyKey t d l v doc = upload_idempotencyKey t' d' l' v' doc' \<longleftrightarrow>
     t = t' \<and> d = d' \<and> l = l' \<and> v = v' \<and> doc = doc'"
  using assms by (simp add: upload_idempotencyKey_def hyphen_split)

lemma upload_idempotencyKey_document:
  "upload_idempotencyKey t d l v doc = upload_idempotencyKey t d l v doc' \<longleftrightarrow> doc = doc'"
  by (simp add: upload_idempotencyKey_def)

lemma fold_runs_cancel:
  "fold runs_cancel ids s = filter (\<lambda>r. pr_id r \<notin> set ids) s"
proof (induction ids arbitrary: s)
  case Nil
  then show ?case by simp
next
  case (Cons i ids)
  then show ?case by (simp add: runs_cancel_def conj_commute)
qed

lemma notify_on_scheduler:
  "notify True t d l v doc now (runs_list s) (\<lambda>i. True) =
     \<lparr>cancel_calls =
        map run_id (matchingRuns (requiredTags d l v)
          (map as_run (filter (\<lambda>r. list_ex (\<lambda>tag. tag \<in> set (pr_tags r))
             (requiredTags d l v)) s))),
      trigger_calls = [new_trigger t d l v doc now], notify_logs = []\<rparr>"
  by (simp add: notify_def runs_list_def Let_def list_all_iff)

lemma cancel_calls_pending:
  "set (cancel_calls (notify True t d l v doc now (runs_list s) (\<lambda>i. True))) \<subseteq> pr_id ` set s"
  by (auto simp add: notify_on_scheduler matchingRuns_def as_run_def)

lemma task_trigger_key:
  "list_ex (\<lambda>r. pr_idempotencyKey r = idempotencyKey req) (task_trigger fresh req s)"
  by (simp add: task_trigger_def list_ex_iff)

lemma task_trigger_again:
  assumes "idempotencyKey req' = idempotencyKey req"
  shows "task_trigger fresh' req' (task_trigger fresh req s) = task_trigger fresh req s"
  using task_trigger_key [of req fresh s] assms
  by (simp add: task_trigger_def [of fresh' req'])

lemma same_upload_collapses:
  assumes "fresh \<notin> pr_id ` set s"
  shows "apply_effects fresh' (notify True t d l v doc now' (runs_list s) (\<lambda>i. True))
      (apply_effects fresh (notify True t d l v doc now (runs_list s) (\<lambda>i. True)) s) =
     apply_effects fresh (notify True t d l v doc now (runs_list s) (\<lambda>i. True)) s"
proof -
  let ?e = "notify True t d l v doc now (runs_list s) (\<lambda>i. True)"
  let ?e' = "notify True t d l v doc now' (runs_list s) (\<lambda>i. True)"
  let ?ids = "cancel_calls ?e"
  let ?c = "filter (\<lambda>r. pr_id r \<notin> set ?ids) s"
  have ids: "cancel_calls ?e' = ?ids"
    by (simp add: notify_on_scheduler)
  have tr: "trigger_calls ?e = [new_trigger t d l v doc now]"
    "trigger_calls ?e' = [new_trigger t d l v doc now']"
    by (simp_all add: notify_on_scheduler)
  have one: "apply_effects fresh ?e s = task_trigger fresh (new_trigger t d l v doc now) ?c"
    by (simp add: apply_effects_def tr fold_runs_cancel)
  from assms cancel_calls_pending [of t d l v doc now s] have "fresh \<notin> set ?ids"
    by blast
  then have keep: "filter (\<lambda>r. pr_id r \<notin> set ?ids)
      (task_trigger fresh (new_trigger t d l v doc now) ?c) =
      task_trigger fresh (new_trigger t d l v doc now) ?c"
    by (simp add: task_trigger_def)
  have "apply_effects fresh' ?e' (apply_effects fresh ?e s) =
      task_trigger fresh' (new_trigger t d l v doc now')
        (task_trigger fresh (new_trigger t d l v doc now) ?c)"
    unfolding one by (simp add: apply_effects_def tr(2) ids fold_runs_cancel keep)
  also have "\<dots> = task_trigger fresh (new_trigger t d l v doc now) ?c"
    by (rule task_trigger_again) (simp add: new_trigger_def)
  finally show ?thesis by (simp only: one)
qed

lemma no_pending_key:
  "k \<notin> pr_idempotencyKey ` set xs \<Longrightarrow> \<not> list_ex (\<lambda>r. pr_idempotencyKey r = k) xs"
  by (induction xs) auto

lemma different_uploads_both_pending:
  assumes "doc \<noteq> doc'" "fresh \<notin> pr_id ` set s"
    and "upload_idempotencyKey t d l v doc \<notin> pr_idempotencyKey ` set s"
    and "upload_idempotencyKey t d l v doc' \<notin> pr_idempotencyKey ` set s"
  shows "apply_effects fresh' (notify True t d l v doc' now' (runs_list s) (\<lambda>i. True))
      (apply_effects fresh (notify True t d l v doc now (runs_list s) (\<lambda>i. True)) s) =
     filter (\<lambda>r. pr_id r \<notin>
         set (cancel_calls (notify True t d l v doc now (runs_list s) (\<lambda>i. True)))) s @
     [\<lparr>pr_id = fresh, pr_idempotencyKey = upload_idempotencyKey t d l v doc,
       pr_tags = upload_tags t d l v, pr_delay = now + 300000\<rparr>,
      \<lparr>pr_id = fresh', pr_idempotencyKey = upload_idempotencyKey t d l v doc',
       pr_tags = upload_tags t d l v, pr_delay = now' + 300000\<rparr>]"
proof -
  let ?e = "notify True t d l v doc now (runs_list s) (\<lambda>i. True)"
  let ?e' = "notify True t d l v doc' now' (runs_list s) (\<lambda>i. True)"
  let ?ids = "cancel_calls ?e"
  let ?c = "filter (\<lambda>r. pr_id r \<notin> set ?ids) s"
  let ?a = "\<lparr>pr_id = fresh, pr_idempotencyKey = upload_idempotencyKey t d l v doc,
       pr_tags = upload_tags t d l v, pr_delay = now + 300000\<rparr>"
  let ?b = "\<lparr>pr_id = fresh', pr_idempotencyKey = upload_idempotencyKey t d l v doc',
       pr_tags = upload_tags t d l v, pr_delay = now' + 300000\<rparr>"
  have ids: "cancel_calls ?e' = ?ids"
    by (simp add: notify_on_scheduler)
  have tr: "trigger_calls ?e = [new_trigger t d l v doc now]"
    "trigger_calls ?e' = [new_trigger t d l v doc' now']"
    by (simp_all add: notify_on_scheduler)
  have keys: "upload_idempotencyKey t d l v doc \<notin> pr_idempotencyKey ` set ?c"
    "upload_idempotencyKey t d l v doc' \<notin> pr_idempotencyKey ` set ?c"
    using assms(3,4) by auto
  from keys(1) have "\<not> list_ex (\<lambda>r. pr_idempotencyKey r = upload_idempotencyKey t d l v doc) ?c"
    by (rule no_pending_key)
  then have "task_trigger fresh (new_trigger t d l v doc now) ?c = ?c @ [?a]"
    by (simp add: task_trigger_def new_trigger_def)
  then have one: "apply_effects fresh ?e s = ?c @ [?a]"
    by (simp add: apply_effects_def tr(1) fold_runs_cancel)
  from assms(2) cancel_calls_pending [of t d l v doc now s] have "fresh \<notin> set ?ids"
    by blast
  then have keep: "filter (\<lambda>r. pr_id r \<notin> set ?ids) (?c @ [?a]) = ?c @ [?a]"
    by simp
  from assms(1) have "upload_idempotencyKey t d l v doc' \<noteq> upload_idempotencyKey t d l v doc"
    by (simp add: upload_idempotencyKey_document)
  with keys(2) have "upload_idempotencyKey t d l v doc' \<notin> pr_idempotencyKey ` set (?c @ [?a])"
    by simp
  then have "\<not> list_ex (\<lambda>r. pr_idempotencyKey r = upload_idempotencyKey t d l v doc')
      (?c @ [?a])"
    by (rule no_pending_key)
  then have trig: "task_trigger fresh' (new_trigger t d l v doc' now') (?c @ [?a]) =
      ?c @ [?a, ?b]"
    by (simp add: task_trigger_def new_trigger_def)
  have "apply_effects fresh' ?e' (apply_effects fresh ?e s) =
      apply_effects fresh' ?e' (?c @ [?a])"
    by (simp only: one)
  also have "\<dots> = task_trigger fresh' (new_trigger t d l v doc' now')
      (filter (\<lambda>r. pr_id r \<notin> set ?ids) (?c @ [?a]))"
    unfolding apply_effects_def tr(2) ids fold_runs_cancel by simp
  also have "\<dots> = task_trigger fresh' (new_trigger t d l v doc' now') (?c @ [?a])"
    by (simp only: keep)
  also note trig
  finally show ?thesis .
qed

text \<open>
  C4 (as amended). When the tag query answers and every cancel resolves, step 4
  schedules exactly one new trigger: it is delayed to the current time plus 300000 ms
  (five minutes) and carries the idempotency key built from team, dataroom, link,
  viewer and the new dataroom document. The key is the same for the same five ids; for
  ids that contain no hyphen in the first four places two keys are equal only if all
  five ids are; and within one team, dataroom, link and viewer two keys are equal only
  if the documents are. On a scheduler that collapses triggers of equal keys, the
  pending triggers after step 4 hold one with the new key, and a second attempt for the
  same upload that races with the first (both query the scheduler before either
  schedules) leaves the pending triggers as the first attempt left them. Two racing
  attempts for different documents of the same team, dataroom, link and viewer, whose
  keys no pending trigger carries yet, are not collapsed: both cancel the same pending
  triggers and each adds its own, so two new triggers with the same tags are pending
  afterwards.
\<close>

theorem one_delayed_trigger:
  "(list_runs (requiredTags d l v) = Some allRuns \<longrightarrow>
      list_all (\<lambda>r. cancel_ok (run_id r)) (matchingRuns (requiredTags d l v) allRuns) \<longrightarrow>
      trigger_calls (notify True t d l v doc now list_runs cancel_ok) =
        [new_trigger t d l v doc now]) \<and>
   delay (new_trigger t d l v doc now) = now + 300000 \<and>
   idempotencyKey (new_trigger t d l v doc now) = upload_idempotencyKey t d l v doc \<and>
   (CHR ''-'' \<notin> set t \<union> set d \<union> set l \<union> set v \<longrightarrow>
    CHR ''-'' \<notin> set t' \<union> set d' \<union> set l' \<union> set v' \<longrightarrow>
      (upload_idempotencyKey t d l v doc = upload_idempotencyKey t' d' l' v' doc' \<longleftrightarrow>
         t = t' \<and> d = d' \<and> l = l' \<and> v = v' \<and> doc = doc')) \<and>
   (upload_idempotencyKey t d l v doc = upload_idempotencyKey t d l v doc' \<longleftrightarrow> doc = doc') \<and>
   list_ex (\<lambda>r. pr_idempotencyKey r = upload_idempotencyKey t d l v doc)
     (apply_effects fresh (notify True t d l v doc now (runs_list s) (\<lambda>i. True)) s) \<and>
   (fresh \<notin> pr_id ` set s \<longrightarrow>
      apply_effects fresh' (notify True t d l v doc now' (runs_list s) (\<lambda>i. True))
        (apply_effects fresh (notify True t d l v doc now (runs_list s) (\<lambda>i. True)) s) =
      apply_effects fresh (notify True t d l v doc now (runs_list s) (\<lambda>i. True)) s) \<and>
   (doc \<noteq> doc' \<longrightarrow> fresh \<notin> pr_id ` set s \<longrightarrow>
    upload_idempotencyKey t d l v doc \<notin> pr_idempotencyKey ` set s \<longrightarrow>
    upload_idempotencyKey t d l v doc' \<notin> pr_idempotencyKey ` set s \<longrightarrow>
      apply_effects fresh' (notify True t d l v doc' now' (runs_list s) (\<lambda>i. True))
        (apply_effects fresh (notify True t d l v doc now (runs_list s) (\<lambda>i. True)) s) =
      filter (\<lambda>r. pr_id r \<notin>
          set (cancel_calls (notify True t d l v doc now (runs_list s) (\<lambda>i. True)))) s @
      [\<lparr>pr_id = fresh, pr_idempotencyKey = upload_idempotencyKey t d l v doc,
        pr_tags = upload_tags t d l v, pr_delay = now + 300000\<rparr>,
       \<lparr>pr_id = fresh', pr_idempotencyKey = upload_idempotencyKey t d l v doc',
        pr_tags = upload_tags t d l v, pr_delay = now' + 300000\<rparr>])"
proof (intro conjI impI)
  assume "list_runs (requiredTags d l v) = Some allRuns"
    and "list_all (\<lambda>r. cancel_ok (run_id r)) (matchingRuns (requiredTags d l v) allRuns)"
  then show "trigger_calls (notify True t d l v doc now list_runs cancel_ok) =
        [new_trigger t d l v doc now]"
    by (simp add: notify_def Let_def)
next
  show "delay (new_trigger t d l v doc now) = now + 300000"
    by (simp add: new_trigger_def)
next
  show "idempotencyKey (new_trigger t d l v doc now) = upload_idempotencyKey t d l v doc"
    by (simp add: new_trigger_def)
next
  assume "CHR ''-'' \<notin> set t \<union> set d \<union> set l \<union> set v"
    and "CHR ''-'' \<notin> set t' \<union> set d' \<union> set l' \<union> set v'"
  then show "upload_idempotencyKey t d l v doc = upload_idempotencyKey t' d' l' v' doc' \<longleftrightarrow>
         t = t' \<and> d = d' \<and> l = l' \<and> v = v' \<and> doc = doc'"
    by (intro upload_idempotencyKey_inj) simp_all
next
  show "upload_idempotencyKey t d l v doc = upload_idempotencyKey t d l v doc' \<longleftrightarrow> doc = doc'"
    by (rule upload_idempotencyKey_document)
next
  have "apply_effects fresh (notify True t d l v doc now (runs_list s) (\<lambda>i. True)) s =
      task_trigger fresh (new_trigger t d l v doc now)
        (fold runs_cancel
           (cancel_calls (notify True t d l v doc now (runs_list s) (\<lambda>i. True))) s)"
    by (simp add: apply_effects_def notify_on_scheduler)
  moreover have "idempotencyKey (new_trigger t d l v doc now) =
      upload_idempotencyKey t d l v doc"
    by (simp add: new_trigger_def)
  ultimately show "list_ex (\<lambda>r. pr_idempotencyKey r = upload_idempotencyKey t d l v doc)
     (apply_effects fresh (notify True t d l v doc now (runs_list s) (\<lambda>i. True)) s)"
    using task_trigger_key [of "new_trigger t d l v doc now" fresh] by simp
next
  assume "fresh \<notin> pr_id ` set s"
  then show "apply_effects fresh' (notify True t d l v doc now' (runs_list s) (\<lambda>i. True))
        (apply_effects fresh (notify True t d l v doc now (runs_list s) (\<lambda>i. True)) s) =
      apply_effects fresh (notify True t d l v doc now (runs_list s) (\<lambda>i. True)) s"
    by (rule same_upload_collapses)
next
  assume "doc \<noteq> doc'" "fresh \<notin> pr_id ` set s"
    "upload_idempotencyKey t d l v doc \<notin> pr_idempotencyKey ` set s"
    "upload_idempotencyKey t d l v doc' \<notin> pr_idempotencyKey ` set s"
  then show "apply_effects fresh' (notify True t d l v doc' now' (runs_list s) (\<lambda>i. True))
        (apply_effects fresh (notify True t d l v doc now (runs_list s) (\<lambda>i. True)) s) =
      filter (\<lambda>r. pr_id r \<notin>
          set (cancel_calls (notify True t d l v doc now (runs_list s) (\<lambda>i. True)))) s @
      [\<lparr>pr_id = fresh, pr_idempotencyKey = upload_idempotencyKey t d l v doc,
        pr_tags = upload_tags t d l v, pr_delay = now + 300000\<rparr>,
       \<lparr>pr_id = fresh', pr_idempotencyKey = upload_idempotencyKey t d l v doc',
        pr_tags = upload_tags t d l v, pr_delay = now' + 300000\<rparr>]"
    by (rule different_uploads_both_pending)
qed

theorem one_delayed_trigger_witness:
  "trigger_calls
     (notify True ''t1'' ''d1'' ''l1'' ''v1'' ''doc_9'' 1700000000000
        (\<lambda>tags. Some example_runs) (\<lambda>i. True)) =
     [\<lparr>trigger_payload =
         \<lparr>p_dataroomId = ''d1'', p_linkId = ''l1'', p_viewerId = ''v1'', p_teamId = ''t1''\<rparr>,
       idempotencyKey = ''upload-notification-t1-d1-l1-v1-doc_9'',
       trigger_tags = [''team_t1'', ''dataroom_d1'', ''link_l1'', ''viewer_v1''],
       delay = 1700000300000\<rparr>] \<and>
   upload_idempotencyKey ''t1'' ''d1'' ''l1'' ''v1'' ''doc_9'' \<noteq>
     upload_idempotencyKey ''t1'' ''d1'' ''l1'' ''v2'' ''doc_9'' \<and>
   ''run_1'' \<notin> pr_id ` set example_pending \<and>
   apply_effects ''run_2''
     (notify True ''t1'' ''d1'' ''l1'' ''v1'' ''doc_1'' 1700000001000 (runs_list example_pending)
        (\<lambda>i. True))
     (apply_effects ''run_1''
        (notify True ''t1'' ''d1'' ''l1'' ''v1'' ''doc_1'' 1700000000000
           (runs_list example_pending) (\<lambda>i. True))
        example_pending) =
     [\<lparr>pr_id = ''run_1'', pr_idempotencyKey = ''upload-notification-t1-d1-l1-v1-doc_1'',
       pr_tags = [''team_t1'', ''dataroom_d1'', ''link_l1'', ''viewer_v1''],
       pr_delay = 1700000300000\<rparr>] \<and>
   apply_effects ''run_4''
     (notify True ''t1'' ''d1'' ''l1'' ''v1'' ''doc_4'' 1700000003000 (runs_list example_pending)
        (\<lambda>i. True))
     (apply_effects ''run_3''
        (notify True ''t1'' ''d1'' ''l1'' ''v1'' ''doc_3'' 1700000002000
           (runs_list example_pending) (\<lambda>i. True))
        example_pending) =
     [\<lparr>pr_id = ''run_3'', pr_idempotencyKey = ''upload-notification-t1-d1-l1-v1-doc_3'',
       pr_tags = [''team_t1'', ''dataroom_d1'', ''link_l1'', ''viewer_v1''],
       pr_delay = 1700000302000\<rparr>,
      \<lparr>pr_id = ''run_4'', pr_idempotencyKey = ''upload-notification-t1-d1-l1-v1-doc_4'',
       pr_tags = [''team_t1'', ''dataroom_d1'', ''link_l1'', ''viewer_v1''],
       pr_delay = 1700000303000\<rparr>]"
proof -
  have m: "matchingRuns (requiredTags ''d1'' ''l1'' ''v1'') example_runs =
      [\<lparr>run_id = ''run_1'', run_tags = Some (upload_tags ''t1'' ''d1'' ''l1'' ''v1'')\<rparr>]"
    by (simp add: matchingRuns_def requiredTags_def example_runs_def upload_tags_def
        tags_include_def)
  have k: "upload_idempotencyKey ''t1'' ''d1'' ''l1'' ''v1'' ''doc_9'' =
      ''upload-notification-t1-d1-l1-v1-doc_9''"
    by (simp add: upload_idempotencyKey_def)
  have w1: "trigger_calls
     (notify True ''t1'' ''d1'' ''l1'' ''v1'' ''doc_9'' 1700000000000
        (\<lambda>tags. Some example_runs) (\<lambda>i. True)) =
     [\<lparr>trigger_payload =
         \<lparr>p_dataroomId = ''d1'', p_linkId = ''l1'', p_viewerId = ''v1'', p_teamId = ''t1''\<rparr>,
       idempotencyKey = ''upload-notification-t1-d1-l1-v1-doc_9'',
       trigger_tags = [''team_t1'', ''dataroom_d1'', ''link_l1'', ''viewer_v1''],
       delay = 1700000300000\<rparr>]"
    using one_delayed_trigger [where list_runs = "\<lambda>tags. Some example_runs"
        and d = "''d1''" and l = "''l1''" and v = "''v1''" and allRuns = example_runs
        and cancel_ok = "\<lambda>i. True" and t = "''t1''" and doc = "''doc_9''"
        and now = 1700000000000, THEN conjunct1]
    by (simp add: m k new_trigger_def upload_tags_def)
  have w2: "upload_idempotencyKey ''t1'' ''d1'' ''l1'' ''v1'' ''doc_9'' \<noteq>
     upload_idempotencyKey ''t1'' ''d1'' ''l1'' ''v2'' ''doc_9''"
    using one_delayed_trigger [where t = "''t1''" and d = "''d1''" and l = "''l1''"
        and v = "''v1''" and doc = "''doc_9''" and t' = "''t1''" and d' = "''d1''"
        and l' = "''l1''" and v' = "''v2''" and doc' = "''doc_9''",
        THEN conjunct2, THEN conjunct2, THEN conjunct2, THEN conjunct1]
    by simp
  have f: "''run_1'' \<notin> pr_id ` set example_pending"
    by (simp add: example_pending_def)
  have one: "apply_effects ''run_1''
        (notify True ''t1'' ''d1'' ''l1'' ''v1'' ''doc_1'' 1700000000000
           (runs_list example_pending) (\<lambda>i. True))
        example_pending =
     [\<lparr>pr_id = ''run_1'', pr_idempotencyKey = ''upload-notification-t1-d1-l1-v1-doc_1'',
       pr_tags = [''team_t1'', ''dataroom_d1'', ''link_l1'', ''viewer_v1''],
       pr_delay = 1700000300000\<rparr>]"
    by code_simp
  have w3: "apply_effects ''run_2''
     (notify True ''t1'' ''d1'' ''l1'' ''v1'' ''doc_1'' 1700000001000 (runs_list example_pending)
        (\<lambda>i. True))
     (apply_effects ''run_1''
        (notify True ''t1'' ''d1'' ''l1'' ''v1'' ''doc_1'' 1700000000000
           (runs_list example_pending) (\<lambda>i. True))
        example_pending) =
     [\<lparr>pr_id = ''run_1'', pr_idempotencyKey = ''upload-notification-t1-d1-l1-v1-doc_1'',
       pr_tags = [''team_t1'', ''dataroom_d1'', ''link_l1'', ''viewer_v1''],
       pr_delay = 1700000300000\<rparr>]"
    using one_delayed_trigger [where fresh = "''run_1''" and s = example_pending
        and fresh' = "''run_2''" and t = "''t1''" and d = "''d1''" and l = "''l1''"
        and v = "''v1''" and doc = "''doc_1''" and now = 1700000000000
        and now' = 1700000001000,
        THEN conjunct2, THEN conjunct2, THEN conjunct2, THEN conjunct2, THEN conjunct2,
        THEN conjunct2, THEN conjunct1, THEN mp, OF f]
    unfolding one .
  have c: "cancel_calls
       (notify True ''t1'' ''d1'' ''l1'' ''v1'' ''doc_3'' 1700000002000
          (runs_list example_pending) (\<lambda>i. True)) = [''run_0'']"
    by code_simp
  have g: "''run_3'' \<notin> pr_id ` set example_pending"
    "upload_idempotencyKey ''t1'' ''d1'' ''l1'' ''v1'' ''doc_3'' \<notin>
       pr_idempotencyKey ` set example_pending"
    "upload_idempotencyKey ''t1'' ''d1'' ''l1'' ''v1'' ''doc_4'' \<notin>
       pr_idempotencyKey ` set example_pending"
    by (simp_all add: example_pending_def upload_idempotencyKey_def)
  have "apply_effects ''run_4''
     (notify True ''t1'' ''d1'' ''l1'' ''v1'' ''doc_4'' 1700000003000 (runs_list example_pending)
        (\<lambda>i. True))
     (apply_effects ''run_3''
        (notify True ''t1'' ''d1'' ''l1'' ''v1'' ''doc_3'' 1700000002000
           (runs_list example_pending) (\<lambda>i. True))
        example_pending) =
     filter (\<lambda>r. pr_id r \<notin>
         set (cancel_calls
           (notify True ''t1'' ''d1'' ''l1'' ''v1'' ''doc_3'' 1700000002000
              (runs_list example_pending) (\<lambda>i. True)))) example_pending @
     [\<lparr>pr_id = ''run_3'',
       pr_idempotencyKey = upload_idempotencyKey ''t1'' ''d1'' ''l1'' ''v1'' ''doc_3'',
       pr_tags = upload_tags ''t1'' ''d1'' ''l1'' ''v1'', pr_delay = 1700000002000 + 300000\<rparr>,
      \<lparr>pr_id = ''run_4'',
       pr_idempotencyKey = upload_idempotencyKey ''t1'' ''d1'' ''l1'' ''v1'' ''doc_4'',
       pr_tags = upload_tags ''t1'' ''d1'' ''l1'' ''v1'', pr_delay = 1700000003000 + 300000\<rparr>]"
    using one_delayed_trigger [where fresh = "''run_3''" and s = example_pending
        and fresh' = "''run_4''" and t = "''t1''" and d = "''d1''" and l = "''l1''"
        and v = "''v1''" and doc = "''doc_3''" and doc' = "''doc_4''"
        and now = 1700000002000 and now' = 1700000003000,
        THEN conjunct2, THEN conjunct2, THEN conjunct2, THEN conjunct2, THEN conjunct2,
        THEN conjunct2, THEN conjunct2] g
    by simp
  then have w4: "apply_effects ''run_4''
     (notify True ''t1'' ''d1'' ''l1'' ''v1'' ''doc_4'' 1700000003000 (runs_list example_pending)
        (\<lambda>i. True))
     (apply_effects ''run_3''
        (notify True ''t1'' ''d1'' ''l1'' ''v1'' ''doc_3'' 1700000002000
           (runs_list example_pending) (\<lambda>i. True))
        example_pending) =
     [\<lparr>pr_id = ''run_3'', pr_idempotencyKey = ''upload-notification-t1-d1-l1-v1-doc_3'',
       pr_tags = [''team_t1'', ''dataroom_d1'', ''link_l1'', ''viewer_v1''],
       pr_delay = 1700000302000\<rparr>,
      \<lparr>pr_id = ''run_4'', pr_idempotencyKey = ''upload-notification-t1-d1-l1-v1-doc_4'',
       pr_tags = [''team_t1'', ''dataroom_d1'', ''link_l1'', ''viewer_v1''],
       pr_delay = 1700000303000\<rparr>]"
    unfolding c by (simp add: example_pending_def upload_idempotencyKey_def upload_tags_def)
  from w1 w2 f w3 w4 show ?thesis by simp
qed

text \<open>
  A race at which the claim as stated fails. One trigger is pending for viewer
  \<open>v1\<close>, link \<open>l1\<close>, dataroom \<open>d1\<close>. The viewer uploads two documents at almost
  the same time; both requests query the scheduler before either schedules, so both
  cancel the pending trigger and both schedule a new one. The two keys end in
  different document ids, so the scheduler does not collapse them: two delayed
  triggers with the same tags stay pending.
\<close>

theorem racing_uploads_two_triggers:
  "notify True ''t1'' ''d1'' ''l1'' ''v1'' ''doc_1'' 1700000000000 (runs_list example_pending)
      (\<lambda>i. True) =
     \<lparr>cancel_calls = [''run_0''],
      trigger_calls = [new_trigger ''t1'' ''d1'' ''l1'' ''v1'' ''doc_1'' 1700000000000],
      notify_logs = []\<rparr> \<and>
   notify True ''t1'' ''d1'' ''l1'' ''v1'' ''doc_2'' 1700000001000 (runs_list example_pending)
      (\<lambda>i. True) =
     \<lparr>cancel_calls = [''run_0''],
      trigger_calls = [new_trigger ''t1'' ''d1'' ''l1'' ''v1'' ''doc_2'' 1700000001000],
      notify_logs = []\<rparr> \<and>
   apply_effects ''run_2''
     (notify True ''t1'' ''d1'' ''l1'' ''v1'' ''doc_2'' 1700000001000 (runs_list example_pending)
        (\<lambda>i. True))
     (apply_effects ''run_1''
        (notify True ''t1'' ''d1'' ''l1'' ''v1'' ''doc_1'' 1700000000000
           (runs_list example_pending) (\<lambda>i. True))
        example_pending) =
     [\<lparr>pr_id = ''run_1'', pr_idempotencyKey = ''upload-notification-t1-d1-l1-v1-doc_1'',
       pr_tags = [''team_t1'', ''dataroom_d1'', ''link_l1'', ''viewer_v1''],
       pr_delay = 1700000300000\<rparr>,
      \<lparr>pr_id = ''run_2'', pr_idempotencyKey = ''upload-notification-t1-d1-l1-v1-doc_2'',
       pr_tags = [''team_t1'', ''dataroom_d1'', ''link_l1'', ''viewer_v1''],
       pr_delay = 1700000301000\<rparr>]"
  by code_simp

section \<open>Parts download\<close>

lemma serve_part_bad_index:
  assumes "job_status job = COMPLETED" "downloadUrls job = Some urls" "urls \<noteq> []"
    and "parseInt10 p = None \<or> (\<exists>i. parseInt10 p = Some i \<and> (i < 0 \<or> int (length urls) \<le> i))"
  shows "serve_part mint job p = parts_reply (Parts_error 400 ''Invalid part index'')"
  using assms by (auto simp add: serve_part_def has_length_def)

lemma serve_part_redirect:
  assumes "parts_response (serve_part mint job p) = Parts_redirect code target"
  shows "code = 302 \<and>
     (\<exists>urls i. job_status job = COMPLETED \<and> downloadUrls job = Some urls \<and>
        parseInt10 p = Some i \<and> 0 \<le> i \<and> i < int (length urls) \<and>
        (target = Some (urls ! nat i) \<or>
         (\<exists>team k url. mint team k = Some url \<and> target = Some url)))"
  using assms
  by (auto simp add: serve_part_def parts_reply_def has_length_def js_index_def Let_def
      split: if_splits option.splits) metis

text \<open>
  C5. For a request that passes the checks before the job's state, on a COMPLETED job
  with a non-empty downloadUrls list: when the part index does not parse to a number,
  or is negative, or is at least the length of downloadUrls, the response is 400
  (Invalid part index), no fresh URL is asked for and nothing is logged. Whatever the
  request, a redirect is a 302 whose index lies within downloadUrls and whose target
  is a defined URL: the stored URL at that index or a freshly minted one.
\<close>

theorem part_index_guard:
  "(parts_checks env req = Inr (job, p) \<longrightarrow> job_status job = COMPLETED \<longrightarrow>
      downloadUrls job = Some urls \<longrightarrow> urls \<noteq> [] \<longrightarrow>
      (parseInt10 p = None \<or>
       (\<exists>i. parseInt10 p = Some i \<and> (i < 0 \<or> int (length urls) \<le> i))) \<longrightarrow>
      parts_handler mint env req =
        \<lparr>parts_response = Parts_error 400 ''Invalid part index'', parts_mint_calls = [],
         parts_logs = []\<rparr>) \<and>
   (parts_response (parts_handler mint env req) = Parts_redirect code target \<longrightarrow>
      code = 302 \<and>
      (\<exists>job' p' urls' i. parts_checks env req = Inr (job', p') \<and>
         job_status job' = COMPLETED \<and> downloadUrls job' = Some urls' \<and>
         parseInt10 p' = Some i \<and> 0 \<le> i \<and> i < int (length urls') \<and>
         (target = Some (urls' ! nat i) \<or>
          (\<exists>team k url. mint team k = Some url \<and> target = Some url))))"
proof (intro conjI impI)
  assume "parts_checks env req = Inr (job, p)" "job_status job = COMPLETED"
    "downloadUrls job = Some urls" "urls \<noteq> []"
    "parseInt10 p = None \<or> (\<exists>i. parseInt10 p = Some i \<and> (i < 0 \<or> int (length urls) \<le> i))"
  then show "parts_handler mint env req =
        \<lparr>parts_response = Parts_error 400 ''Invalid part index'', parts_mint_calls = [],
         parts_logs = []\<rparr>"
    using serve_part_bad_index [of job urls p mint]
    by (simp add: parts_handler_def parts_reply_def)
next
  assume r: "parts_response (parts_handler mint env req) = Parts_redirect code target"
  show "code = 302"
  proof (cases "parts_checks env req")
    case (Inl e)
    with r show ?thesis
      by (auto simp add: parts_handler_def parts_reply_def parts_checks_def
          split: if_splits option.splits prod.splits)
  next
    case (Inr jp)
    with r show ?thesis
      using serve_part_redirect [of mint "fst jp" "snd jp" code target]
      by (simp add: parts_handler_def split: prod.splits)
  qed
next
  assume r: "parts_response (parts_handler mint env req) = Parts_redirect code target"
  show "\<exists>job' p' urls' i. parts_checks env req = Inr (job', p') \<and>
         job_status job' = COMPLETED \<and> downloadUrls job' = Some urls' \<and>
         parseInt10 p' = Some i \<and> 0 \<le> i \<and> i < int (length urls') \<and>
         (target = Some (urls' ! nat i) \<or>
          (\<exists>team k url. mint team k = Some url \<and> target = Some url))"
  proof (cases "parts_checks env req")
    case (Inl e)
    with r show ?thesis
      by (auto simp add: parts_handler_def parts_reply_def parts_checks_def
          split: if_splits option.splits prod.splits)
  next
    case (Inr jp)
    with r have "parts_response (serve_part mint (fst jp) (snd jp)) = Parts_redirect code target"
      by (simp add: parts_handler_def split: prod.splits)
    from serve_part_redirect [OF this] Inr show ?thesis
      by (cases jp) auto
  qed
qed
lemma example_parts_checks:
  "parts_checks (example_parts_env job) (example_parts_request p) =
     (if job_linkId job = Some ''link_1'' \<and> viewerEmail job = Some ''ann@example.com''
      then Inr (job, p) else Inl (Parts_error 403 ''Job does not belong to this viewer''))"
  by (simp add: parts_checks_def example_parts_env_def example_parts_request_def)

lemma example_viewer_job_fields:
  "job_status example_viewer_job = COMPLETED"
  "job_linkId example_viewer_job = Some ''link_1''"
  "viewerEmail example_viewer_job = Some ''ann@example.com''"
  "job_teamId example_viewer_job = Some ''team_1''"
  "downloadUrls example_viewer_job =
     Some [''https://stored.example/part1'', ''https://stored.example/part2'']"
  "downloadS3Keys example_viewer_job = Some example_keys"
  by (simp_all add: example_viewer_job_def)

lemma parseInt10_examples:
  "parseInt10 ''0'' = Some 0" "parseInt10 ''1'' = Some 1" "parseInt10 ''2'' = Some 2"
  "parseInt10 ''-1'' = Some (- 1)" "parseInt10 ''abc'' = None"
  by code_simp+

theorem part_index_guard_witness:
  "parts_handler (\<lambda>team k. Some ''https://fresh.example/part'')
      (example_parts_env example_viewer_job) (example_parts_request ''2'') =
     \<lparr>parts_response = Parts_error 400 ''Invalid part index'', parts_mint_calls = [],
      parts_logs = []\<rparr> \<and>
   parts_checks (example_parts_env example_viewer_job) (example_parts_request ''2'') =
     Inr (example_viewer_job, ''2'') \<and>
   parseInt10 ''2'' = Some 2 \<and>
   downloadUrls example_viewer_job =
     Some [''https://stored.example/part1'', ''https://stored.example/part2'']"
  using part_index_guard [where env = "example_parts_env example_viewer_job"
      and req = "example_parts_request ''2''" and job = example_viewer_job and p = "''2''"
      and urls = "[''https://stored.example/part1'', ''https://stored.example/part2'']"
      and mint = "\<lambda>team k. Some ''https://fresh.example/part''"]
  by (simp add: example_parts_checks example_viewer_job_fields parseInt10_examples)
section \<open>Re-minting on the read paths\<close>

lemma those_map_Some:
  "list_all (\<lambda>k. f k \<noteq> None) ks \<Longrightarrow> those (map f ks) = Some (map (\<lambda>k. the (f k)) ks)"
  by (induction ks) auto

lemma those_map_None:
  "\<not> list_all (\<lambda>k. f k \<noteq> None) ks \<Longrightarrow> those (map f ks) = None"
  by (induction ks) (auto split: option.splits)

lemma serve_part_remint:
  assumes "job_status job = COMPLETED" "downloadUrls job = Some urls"
    and "parseInt10 p = Some i" "0 \<le> i" "i < int (length urls)"
    and "downloadS3Keys job = Some keys" "js_index keys i = Some k"
    and "job_teamId job = Some team" "team \<noteq> []"
  shows "serve_part mint job p =
     (case mint team k of
        Some freshUrl \<Rightarrow>
          \<lparr>parts_response = Parts_redirect 302 (Some freshUrl),
           parts_mint_calls = [(team, k)], parts_logs = []\<rparr>
      | None \<Rightarrow>
          \<lparr>parts_response = Parts_redirect 302 (Some (urls ! nat i)),
           parts_mint_calls = [(team, k)],
           parts_logs = [''Failed to generate fresh presigned URL:'']\<rparr>)"
proof -
  from assms have "urls \<noteq> []" by auto
  with assms show ?thesis
    by (simp add: serve_part_def has_length_def js_index_def Let_def split: option.splits)
qed

lemma with_fresh_urls_cases:
  assumes "job_status job = COMPLETED" "downloadS3Keys job = Some keys" "keys \<noteq> []"
    and "has_length (downloadUrls job)"
  shows "with_fresh_urls mint teamId job =
     (if list_all (\<lambda>k. mint teamId k \<noteq> None) keys
      then job\<lparr>downloadUrls := Some (map (\<lambda>k. the (mint teamId k)) keys)\<rparr>
      else job)"
  using assms
  by (simp add: with_fresh_urls_def wants_fresh_urls_def has_length_def those_map_Some
      those_map_None)

lemma serve_part_stored:
  assumes "job_status job = COMPLETED" "downloadUrls job = Some urls"
    and "parseInt10 p = Some i" "0 \<le> i" "i < int (length urls)"
    and "downloadS3Keys job = None
         \<or> (\<exists>ks. downloadS3Keys job = Some ks \<and> js_index ks i = None)
         \<or> job_teamId job = None \<or> job_teamId job = Some []"
  shows "serve_part mint job p =
     \<lparr>parts_response = Parts_redirect 302 (Some (urls ! nat i)),
      parts_mint_calls = [], parts_logs = []\<rparr>"
proof -
  from assms have "urls \<noteq> []" by auto
  with assms show ?thesis
    by (auto simp add: serve_part_def has_length_def js_index_def Let_def parts_reply_def
        split: option.splits)
qed

lemma without_fresh_urls:
  assumes "job_status job \<noteq> COMPLETED \<or> \<not> has_length (downloadS3Keys job)
      \<or> \<not> has_length (downloadUrls job)"
  shows "with_fresh_urls mint teamId job = job" "fresh_url_calls teamId job = []"
  using assms by (auto simp add: with_fresh_urls_def fresh_url_calls_def wants_fresh_urls_def)

lemma listing_without_fresh_urls:
  assumes "session_user jenv = Some uid" "findTeamAccess jenv uid teamId = Inr True"
    and "getDataroomJobs jenv dataroomId teamId 10 = Inr jobs"
    and "\<forall>j \<in> set (userJobs uid now jobs). job_status j \<noteq> COMPLETED
           \<or> \<not> has_length (downloadS3Keys j) \<or> \<not> has_length (downloadUrls j)"
  shows "jobs_handler mint jenv ''GET'' teamId dataroomId now =
     \<lparr>jobs_response = Jobs_ok (userJobs uid now jobs), jobs_mint_calls = [],
      jobs_logs = []\<rparr>"
proof -
  have "map (with_fresh_urls mint teamId) (userJobs uid now jobs) = userJobs uid now jobs"
    using assms(4) by (intro map_idI) (auto simp add: without_fresh_urls)
  moreover have "concat (map (fresh_url_calls teamId) (userJobs uid now jobs)) = []"
    using assms(4) by (auto simp add: without_fresh_urls)
  ultimately show ?thesis
    using assms(1-3) by (simp add: jobs_handler_def)
qed

text \<open>
  C6 (as amended). On the parts endpoint, for a part whose S3 key is stored with a job
  that has a team id, a fresh URL is asked for first (one call); the response is 302
  to the fresh URL, and when minting fails it is 302 to the stored URL, with the error
  logged. For a part without key info (the job has no S3 keys, or none at that index,
  or no team id) the response is 302 to the stored URL, with no call and no log. In
  the owner's listing, for a COMPLETED job with stored S3 keys and URLs, a fresh URL is
  asked for every key; the job is returned with the fresh URLs when all are minted and
  as stored otherwise; a job without key info (not COMPLETED, or without S3 keys or
  URLs) is returned as stored with no call. The response is 200 in every case, with the
  calls of the listed jobs and no log; when no listed job has key info it is the listed
  jobs as stored, with no call at all.
\<close>

theorem remint_then_fallback:
  "(parts_checks env req = Inr (job, p) \<longrightarrow> job_status job = COMPLETED \<longrightarrow>
      downloadUrls job = Some urls \<longrightarrow> parseInt10 p = Some i \<longrightarrow> 0 \<le> i \<longrightarrow>
      i < int (length urls) \<longrightarrow> downloadS3Keys job = Some keys \<longrightarrow>
      js_index keys i = Some k \<longrightarrow> job_teamId job = Some team \<longrightarrow> team \<noteq> [] \<longrightarrow>
      parts_handler mint env req =
        (case mint team k of
           Some freshUrl \<Rightarrow>
             \<lparr>parts_response = Parts_redirect 302 (Some freshUrl),
              parts_mint_calls = [(team, k)], parts_logs = []\<rparr>
         | None \<Rightarrow>
             \<lparr>parts_response = Parts_redirect 302 (Some (urls ! nat i)),
              parts_mint_calls = [(team, k)],
              parts_logs = [''Failed to generate fresh presigned URL:'']\<rparr>)) \<and>
   (job_status job = COMPLETED \<longrightarrow> downloadS3Keys job = Some keys \<longrightarrow> keys \<noteq> [] \<longrightarrow>
      has_length (downloadUrls job) \<longrightarrow>
      fresh_url_calls teamId job = map (\<lambda>k. (teamId, k)) keys \<and>
      with_fresh_urls mint teamId job =
        (if list_all (\<lambda>k. mint teamId k \<noteq> None) keys
         then job\<lparr>downloadUrls := Some (map (\<lambda>k. the (mint teamId k)) keys)\<rparr>
         else job)) \<and>
   (session_user jenv = Some uid \<longrightarrow> findTeamAccess jenv uid teamId = Inr True \<longrightarrow>
      getDataroomJobs jenv dataroomId teamId 10 = Inr jobs \<longrightarrow>
      jobs_response (jobs_handler mint jenv ''GET'' teamId dataroomId now) =
        Jobs_ok (map (with_fresh_urls mint teamId) (userJobs uid now jobs))) \<and>
   (parts_checks env req = Inr (job, p) \<longrightarrow> job_status job = COMPLETED \<longrightarrow>
      downloadUrls job = Some urls \<longrightarrow> parseInt10 p = Some i \<longrightarrow> 0 \<le> i \<longrightarrow>
      i < int (length urls) \<longrightarrow>
      downloadS3Keys job = None
        \<or> (\<exists>ks. downloadS3Keys job = Some ks \<and> js_index ks i = None)
        \<or> job_teamId job = None \<or> job_teamId job = Some [] \<longrightarrow>
      parts_handler mint env req =
        \<lparr>parts_response = Parts_redirect 302 (Some (urls ! nat i)),
         parts_mint_calls = [], parts_logs = []\<rparr>) \<and>
   (job_status job \<noteq> COMPLETED \<or> \<not> has_length (downloadS3Keys job)
      \<or> \<not> has_length (downloadUrls job) \<longrightarrow>
      with_fresh_urls mint teamId job = job \<and> fresh_url_calls teamId job = []) \<and>
   (session_user jenv = Some uid \<longrightarrow> findTeamAccess jenv uid teamId = Inr True \<longrightarrow>
      getDataroomJobs jenv dataroomId teamId 10 = Inr jobs \<longrightarrow>
      jobs_mint_calls (jobs_handler mint jenv ''GET'' teamId dataroomId now) =
        concat (map (fresh_url_calls teamId) (userJobs uid now jobs)) \<and>
      jobs_logs (jobs_handler mint jenv ''GET'' teamId dataroomId now) = [] \<and>
      ((\<forall>j \<in> set (userJobs uid now jobs). job_status j \<noteq> COMPLETED
           \<or> \<not> has_length (downloadS3Keys j) \<or> \<not> has_length (downloadUrls j)) \<longrightarrow>
       jobs_handler mint jenv ''GET'' teamId dataroomId now =
         \<lparr>jobs_response = Jobs_ok (userJobs uid now jobs), jobs_mint_calls = [],
          jobs_logs = []\<rparr>))"
proof (intro conjI impI)
  assume "parts_checks env req = Inr (job, p)" "job_status job = COMPLETED"
    "downloadUrls job = Some urls" "parseInt10 p = Some i" "0 \<le> i"
    "i < int (length urls)" "downloadS3Keys job = Some keys" "js_index keys i = Some k"
    "job_teamId job = Some team" "team \<noteq> []"
  then show "parts_handler mint env req =
        (case mint team k of
           Some freshUrl \<Rightarrow>
             \<lparr>parts_response = Parts_redirect 302 (Some freshUrl),
              parts_mint_calls = [(team, k)], parts_logs = []\<rparr>
         | None \<Rightarrow>
             \<lparr>parts_response = Parts_redirect 302 (Some (urls ! nat i)),
              parts_mint_calls = [(team, k)],
              parts_logs = [''Failed to generate fresh presigned URL:'']\<rparr>)"
    using serve_part_remint [of job urls p i keys k team mint]
    by (simp add: parts_handler_def)
next
  assume "job_status job = COMPLETED" "downloadS3Keys job = Some keys" "keys \<noteq> []"
    "has_length (downloadUrls job)"
  then show "fresh_url_calls teamId job = map (\<lambda>k. (teamId, k)) keys"
    by (simp add: fresh_url_calls_def wants_fresh_urls_def has_length_def)
next
  assume "job_status job = COMPLETED" "downloadS3Keys job = Some keys" "keys \<noteq> []"
    "has_length (downloadUrls job)"
  then show "with_fresh_urls mint teamId job =
        (if list_all (\<lambda>k. mint teamId k \<noteq> None) keys
         then job\<lparr>downloadUrls := Some (map (\<lambda>k. the (mint teamId k)) keys)\<rparr>
         else job)"
    by (rule with_fresh_urls_cases)
next
  assume "session_user jenv = Some uid" "findTeamAccess jenv uid teamId = Inr True"
    "getDataroomJobs jenv dataroomId teamId 10 = Inr jobs"
  then show "jobs_response (jobs_handler mint jenv ''GET'' teamId dataroomId now) =
        Jobs_ok (map (with_fresh_urls mint teamId) (userJobs uid now jobs))"
    by (simp add: jobs_handler_def)
next
  assume c: "parts_checks env req = Inr (job, p)"
    and s: "job_status job = COMPLETED" "downloadUrls job = Some urls"
      "parseInt10 p = Some i" "0 \<le> i" "i < int (length urls)"
      "downloadS3Keys job = None
        \<or> (\<exists>ks. downloadS3Keys job = Some ks \<and> js_index ks i = None)
        \<or> job_teamId job = None \<or> job_teamId job = Some []"
  from s have "serve_part mint job p =
        \<lparr>parts_response = Parts_redirect 302 (Some (urls ! nat i)),
         parts_mint_calls = [], parts_logs = []\<rparr>"
    by (rule serve_part_stored)
  with c show "parts_handler mint env req =
        \<lparr>parts_response = Parts_redirect 302 (Some (urls ! nat i)),
         parts_mint_calls = [], parts_logs = []\<rparr>"
    by (simp add: parts_handler_def)
next
  assume n: "job_status job \<noteq> COMPLETED \<or> \<not> has_length (downloadS3Keys job)
      \<or> \<not> has_length (downloadUrls job)"
  then show "with_fresh_urls mint teamId job = job"
    by (rule without_fresh_urls)
  from n show "fresh_url_calls teamId job = []"
    by (rule without_fresh_urls)
next
  assume "session_user jenv = Some uid" "findTeamAccess jenv uid teamId = Inr True"
    "getDataroomJobs jenv dataroomId teamId 10 = Inr jobs"
  then show "jobs_mint_calls (jobs_handler mint jenv ''GET'' teamId dataroomId now) =
        concat (map (fresh_url_calls teamId) (userJobs uid now jobs))"
    by (simp add: jobs_handler_def)
next
  assume "session_user jenv = Some uid" "findTeamAccess jenv uid teamId = Inr True"
    "getDataroomJobs jenv dataroomId teamId 10 = Inr jobs"
  then show "jobs_logs (jobs_handler mint jenv ''GET'' teamId dataroomId now) = []"
    by (simp add: jobs_handler_def)
next
  assume "session_user jenv = Some uid" "findTeamAccess jenv uid teamId = Inr True"
    "getDataroomJobs jenv dataroomId teamId 10 = Inr jobs"
    "\<forall>j \<in> set (userJobs uid now jobs). job_status j \<noteq> COMPLETED
           \<or> \<not> has_length (downloadS3Keys j) \<or> \<not> has_length (downloadUrls j)"
  then show "jobs_handler mint jenv ''GET'' teamId dataroomId now =
         \<lparr>jobs_response = Jobs_ok (userJobs uid now jobs), jobs_mint_calls = [],
          jobs_logs = []\<rparr>"
    by (rule listing_without_fresh_urls)
qed

lemma example_owner_job_fields:
  "job_status example_owner_job = COMPLETED"
  "userId example_owner_job = Some ''user_1''"
  "downloadUrls example_owner_job =
     Some [''https://stored.example/part1'', ''https://stored.example/part2'']"
  "downloadS3Keys example_owner_job = Some example_keys"
  "expiresAt example_owner_job = Some (Some 1700259200000)"
  by (simp_all add: example_owner_job_def example_viewer_job_def)

lemma example_owner_listing:
  "userJobs ''user_1'' 1700000000000 [example_owner_job] = [example_owner_job]"
  by (simp add: userJobs_def job_filter_def date_gt_def example_owner_job_fields)

lemma example_jobs_env_fields:
  "session_user (example_jobs_env jobs) = Some ''user_1''"
  "findTeamAccess (example_jobs_env jobs) ''user_1'' ''team_1'' = Inr True"
  "getDataroomJobs (example_jobs_env jobs) d ''team_1'' 10 = Inr jobs"
  by (simp_all add: example_jobs_env_def)

theorem remint_then_fallback_witness:
  "parts_handler (\<lambda>team k. None) (example_parts_env example_viewer_job)
      (example_parts_request ''1'') =
     \<lparr>parts_response = Parts_redirect 302 (Some ''https://stored.example/part2''),
      parts_mint_calls =
        [(''team_1'',
          \<lparr>bucket = ''bucket1'', key = ''exports/part2.zip'', region = ''us-east-1''\<rparr>)],
      parts_logs = [''Failed to generate fresh presigned URL:'']\<rparr> \<and>
   fresh_url_calls ''team_1'' example_owner_job = map (\<lambda>k. (''team_1'', k)) example_keys \<and>
   with_fresh_urls (\<lambda>team k. None) ''team_1'' example_owner_job = example_owner_job \<and>
   jobs_response
     (jobs_handler (\<lambda>team k. None) (example_jobs_env [example_owner_job]) ''GET'' ''team_1''
        ''d1'' 1700000000000) = Jobs_ok [example_owner_job] \<and>
   parts_handler (\<lambda>team k. Some ''https://fresh.example/part'')
      (example_parts_env example_job_without_keys) (example_parts_request ''1'') =
     \<lparr>parts_response = Parts_redirect 302 (Some ''https://stored.example/part2''),
      parts_mint_calls = [], parts_logs = []\<rparr> \<and>
   jobs_handler (\<lambda>team k. Some ''https://fresh.example/part'')
      (example_jobs_env [example_owner_job\<lparr>downloadS3Keys := None\<rparr>]) ''GET'' ''team_1''
      ''d1'' 1700000000000 =
     \<lparr>jobs_response = Jobs_ok [example_owner_job\<lparr>downloadS3Keys := None\<rparr>],
      jobs_mint_calls = [], jobs_logs = []\<rparr>"
proof -
  let ?urls = "[''https://stored.example/part1'', ''https://stored.example/part2'']"
  let ?k = "\<lparr>bucket = ''bucket1'', key = ''exports/part2.zip'', region = ''us-east-1''\<rparr>"
  let ?fresh = "\<lambda>team k. Some ''https://fresh.example/part''"
  let ?bare = "example_owner_job\<lparr>downloadS3Keys := None\<rparr>"
  have parts: "parts_handler (\<lambda>team k. None) (example_parts_env example_viewer_job)
      (example_parts_request ''1'') =
     \<lparr>parts_response = Parts_redirect 302 (Some ''https://stored.example/part2''),
      parts_mint_calls = [(''team_1'', ?k)],
      parts_logs = [''Failed to generate fresh presigned URL:'']\<rparr>"
    using remint_then_fallback [where env = "example_parts_env example_viewer_job"
        and req = "example_parts_request ''1''" and job = example_viewer_job and p = "''1''"
        and urls = ?urls and i = 1 and keys = example_keys and k = ?k
        and team = "''team_1''" and mint = "\<lambda>team k. None", THEN conjunct1]
    by (simp add: example_parts_checks example_viewer_job_fields parseInt10_examples
        js_index_def example_keys_def)
  have listing: "fresh_url_calls ''team_1'' example_owner_job =
       map (\<lambda>k. (''team_1'', k)) example_keys \<and>
     with_fresh_urls (\<lambda>team k. None) ''team_1'' example_owner_job = example_owner_job"
    using remint_then_fallback [where job = example_owner_job and keys = example_keys
        and teamId = "''team_1''" and mint = "\<lambda>team k. None",
        THEN conjunct2, THEN conjunct1]
    by (simp add: example_owner_job_fields has_length_def example_keys_def)
  have answer: "jobs_response
       (jobs_handler (\<lambda>team k. None) (example_jobs_env [example_owner_job]) ''GET''
          ''team_1'' ''d1'' 1700000000000) =
       Jobs_ok (map (with_fresh_urls (\<lambda>team k. None) ''team_1'') [example_owner_job])"
    using remint_then_fallback [where teamId = "''team_1''" and mint = "\<lambda>team k. None"
        and jenv = "example_jobs_env [example_owner_job]" and uid = "''user_1''"
        and dataroomId = "''d1''" and jobs = "[example_owner_job]" and now = 1700000000000,
        THEN conjunct2, THEN conjunct2, THEN conjunct1]
    by (simp add: example_jobs_env_fields example_owner_listing)
  have checks: "parts_checks (example_parts_env example_job_without_keys)
      (example_parts_request ''1'') = Inr (example_job_without_keys, ''1'')"
    by (simp add: example_parts_checks example_job_without_keys_def example_viewer_job_def)
  have stored: "parts_handler ?fresh (example_parts_env example_job_without_keys)
      (example_parts_request ''1'') =
     \<lparr>parts_response = Parts_redirect 302 (Some ''https://stored.example/part2''),
      parts_mint_calls = [], parts_logs = []\<rparr>"
    using remint_then_fallback [where env = "example_parts_env example_job_without_keys"
        and req = "example_parts_request ''1''" and job = example_job_without_keys
        and p = "''1''" and urls = ?urls and i = 1 and mint = ?fresh,
        THEN conjunct2, THEN conjunct2, THEN conjunct2, THEN conjunct1] checks
    by (simp add: example_job_without_keys_def example_viewer_job_def parseInt10_examples)
  have bare: "userJobs ''user_1'' 1700000000000 [?bare] = [?bare]"
    by (simp add: userJobs_def job_filter_def date_gt_def example_owner_job_fields)
  have unkeyed: "jobs_handler ?fresh (example_jobs_env [?bare]) ''GET'' ''team_1'' ''d1''
      1700000000000 =
     \<lparr>jobs_response = Jobs_ok [?bare], jobs_mint_calls = [], jobs_logs = []\<rparr>"
    using remint_then_fallback [where teamId = "''team_1''" and mint = ?fresh
        and jenv = "example_jobs_env [?bare]" and uid = "''user_1''"
        and dataroomId = "''d1''" and jobs = "[?bare]" and now = 1700000000000,
        THEN conjunct2, THEN conjunct2, THEN conjunct2, THEN conjunct2, THEN conjunct2]
    by (simp add: example_jobs_env_fields bare has_length_def)
  from parts listing answer stored unkeyed show ?thesis by simp
qed

text \<open>
  Two requests at which the claim as stated fails. A part of a job stored without S3
  keys is served from the stored URL with no attempt to mint, although minting would
  succeed; and when minting fails in the listing, the job is returned as stored and
  nothing is logged.
\<close>

theorem stored_url_without_remint_or_log:
  "parts_handler (\<lambda>team k. Some ''https://fresh.example/part'')
      (example_parts_env example_job_without_keys) (example_parts_request ''0'') =
     \<lparr>parts_response = Parts_redirect 302 (Some ''https://stored.example/part1''),
      parts_mint_calls = [], parts_logs = []\<rparr> \<and>
   jobs_handler (\<lambda>team k. None) (example_jobs_env [example_owner_job]) ''GET'' ''team_1''
      ''d1'' 1700000000000 =
     \<lparr>jobs_response = Jobs_ok [example_owner_job],
      jobs_mint_calls = map (\<lambda>k. (''team_1'', k)) example_keys, jobs_logs = []\<rparr>"
proof -
  have "parts_checks (example_parts_env example_job_without_keys) (example_parts_request ''0'')
      = Inr (example_job_without_keys, ''0'')"
    by (simp add: example_parts_checks example_job_without_keys_def example_viewer_job_def)
  then have parts: "parts_handler (\<lambda>team k. Some ''https://fresh.example/part'')
      (example_parts_env example_job_without_keys) (example_parts_request ''0'') =
     \<lparr>parts_response = Parts_redirect 302 (Some ''https://stored.example/part1''),
      parts_mint_calls = [], parts_logs = []\<rparr>"
    by (simp add: parts_handler_def serve_part_def example_job_without_keys_def
        example_viewer_job_def has_length_def parseInt10_examples js_index_def parts_reply_def)
  have "with_fresh_urls (\<lambda>team k. None) ''team_1'' example_owner_job = example_owner_job"
    by (simp add: with_fresh_urls_def wants_fresh_urls_def example_owner_job_fields
        has_length_def example_keys_def)
  moreover have "fresh_url_calls ''team_1'' example_owner_job =
      map (\<lambda>k. (''team_1'', k)) example_keys"
    by (simp add: fresh_url_calls_def wants_fresh_urls_def example_owner_job_fields
        has_length_def example_keys_def)
  ultimately have "jobs_handler (\<lambda>team k. None) (example_jobs_env [example_owner_job]) ''GET''
      ''team_1'' ''d1'' 1700000000000 =
     \<lparr>jobs_response = Jobs_ok [example_owner_job],
      jobs_mint_calls = map (\<lambda>k. (''team_1'', k)) example_keys, jobs_logs = []\<rparr>"
    by (simp add: jobs_handler_def example_jobs_env_fields example_owner_listing)
  with parts show ?thesis by simp
qed

section \<open>The owner job listing\<close>

lemma userJobs_iff:
  "job \<in> set (userJobs uid now jobs) \<longleftrightarrow>
     job \<in> set jobs \<and> userId job = Some uid \<and>
     (job_status job = PENDING \<or> job_status job = PROCESSING
      \<or> (job_status job = COMPLETED \<and> (\<exists>e. expiresAt job = Some (Some e) \<and> now < e))
      \<or> (job_status job = FAILED \<and> (\<exists>c. createdAt job = Some c \<and> now - 3600000 < c)))"
  unfolding userJobs_def set_filter mem_Collect_eq job_filter_iff by (rule refl)

lemma userJobs_filter:
  "userJobs uid now jobs =
     filter (\<lambda>job. userId job = Some uid \<and>
       (job_status job = PENDING \<or> job_status job = PROCESSING
        \<or> (job_status job = COMPLETED \<and> (\<exists>e. expiresAt job = Some (Some e) \<and> now < e))
        \<or> (job_status job = FAILED \<and> (\<exists>c. createdAt job = Some c \<and> now - 3600000 < c))))
       jobs"
  unfolding userJobs_def by (rule filter_cong) (simp_all add: job_filter_iff)

lemma with_fresh_urls_fields:
  "job_status (with_fresh_urls mint teamId job) = job_status job"
  "userId (with_fresh_urls mint teamId job) = userId job"
  "createdAt (with_fresh_urls mint teamId job) = createdAt job"
  "expiresAt (with_fresh_urls mint teamId job) = expiresAt job"
  by (simp_all add: with_fresh_urls_def split: option.splits)

lemma job_filter_with_fresh_urls:
  "job_filter uid now (with_fresh_urls mint teamId job) = job_filter uid now job"
  by (simp add: job_filter_def with_fresh_urls_fields)

text \<open>When the listing handler answers with jobs, and what it then answers.\<close>

lemma jobs_handler_ok:
  "jobs_response (jobs_handler mint env http_method teamId dataroomId now) = Jobs_ok rs \<longleftrightarrow>
     http_method = ''GET'' \<and>
     (\<exists>uid jobs. session_user env = Some uid \<and> findTeamAccess env uid teamId = Inr True \<and>
        getDataroomJobs env dataroomId teamId 10 = Inr jobs \<and>
        rs = map (with_fresh_urls mint teamId) (userJobs uid now jobs))"
  by (auto simp add: jobs_handler_def split: option.splits sum.splits bool.splits)

lemma listed_iff_filter:
  "with_fresh_urls mint teamId job \<in> set (map (with_fresh_urls mint teamId) (userJobs uid now jobs))
     \<longleftrightarrow> (\<exists>job' \<in> set jobs. job_filter uid now job' \<and>
            with_fresh_urls mint teamId job' = with_fresh_urls mint teamId job)"
  by (auto simp add: userJobs_def image_iff)

lemma listed_job_iff:
  assumes "job \<in> set jobs"
  shows "with_fresh_urls mint teamId job
       \<in> set (map (with_fresh_urls mint teamId) (userJobs uid now jobs))
     \<longleftrightarrow> job_filter uid now job"
proof
  assume "with_fresh_urls mint teamId job
       \<in> set (map (with_fresh_urls mint teamId) (userJobs uid now jobs))"
  then obtain job' where "job_filter uid now job'"
    and "with_fresh_urls mint teamId job' = with_fresh_urls mint teamId job"
    unfolding listed_iff_filter by blast
  then show "job_filter uid now job"
    using job_filter_with_fresh_urls [of uid now mint teamId job]
      job_filter_with_fresh_urls [of uid now mint teamId job'] by simp
next
  assume "job_filter uid now job"
  with assms show "with_fresh_urls mint teamId job
       \<in> set (map (with_fresh_urls mint teamId) (userJobs uid now jobs))"
    by (simp add: userJobs_def)
qed

text \<open>
  C2. Whenever the owner's job listing answers with jobs, the request is a GET of a
  signed-in member of the team, and the jobs returned are those of the store's answer,
  each with its URLs refreshed, that belong to the requesting user and are PENDING or
  PROCESSING (whatever their age), or COMPLETED with the current time strictly before
  expiresAt, or FAILED with createdAt later than one hour (3600000 ms) before the
  current time; every job returned satisfies this itself. For such a request the
  listing does answer with jobs, and a job of the store is among them (refreshed)
  exactly when it satisfies the rule: a FAILED job created an hour ago or earlier is
  left out although the store holds it.
\<close>

theorem listing_visibility:
  "(jobs_response (jobs_handler mint env http_method teamId dataroomId now) = Jobs_ok rs \<longrightarrow>
      http_method = ''GET'' \<and>
      (\<exists>uid jobs. session_user env = Some uid \<and>
         findTeamAccess env uid teamId = Inr True \<and>
         getDataroomJobs env dataroomId teamId 10 = Inr jobs \<and>
         rs = map (with_fresh_urls mint teamId)
                (filter (\<lambda>job. userId job = Some uid \<and>
                   (job_status job = PENDING \<or> job_status job = PROCESSING
                    \<or> (job_status job = COMPLETED
                        \<and> (\<exists>e. expiresAt job = Some (Some e) \<and> now < e))
                    \<or> (job_status job = FAILED
                        \<and> (\<exists>c. createdAt job = Some c \<and> now - 3600000 < c))))
                   jobs) \<and>
         (\<forall>r \<in> set rs. userId r = Some uid \<and>
            (job_status r = PENDING \<or> job_status r = PROCESSING
             \<or> (job_status r = COMPLETED \<and> (\<exists>e. expiresAt r = Some (Some e) \<and> now < e))
             \<or> (job_status r = FAILED \<and> (\<exists>c. createdAt r = Some c \<and> now - 3600000 < c)))))) \<and>
   (session_user env = Some uid \<longrightarrow> findTeamAccess env uid teamId = Inr True \<longrightarrow>
    getDataroomJobs env dataroomId teamId 10 = Inr jobs \<longrightarrow>
      (\<exists>rs. jobs_response (jobs_handler mint env ''GET'' teamId dataroomId now) = Jobs_ok rs \<and>
         (\<forall>job \<in> set jobs.
            with_fresh_urls mint teamId job \<in> set rs \<longleftrightarrow>
              userId job = Some uid \<and>
              (job_status job = PENDING \<or> job_status job = PROCESSING
               \<or> (job_status job = COMPLETED
                   \<and> (\<exists>e. expiresAt job = Some (Some e) \<and> now < e))
               \<or> (job_status job = FAILED
                   \<and> (\<exists>c. createdAt job = Some c \<and> now - 3600000 < c))))))"
proof (intro conjI impI)
  assume "jobs_response (jobs_handler mint env http_method teamId dataroomId now) = Jobs_ok rs"
  then have m: "http_method = ''GET''"
    and "\<exists>uid jobs. session_user env = Some uid \<and>
      findTeamAccess env uid teamId = Inr True \<and>
      getDataroomJobs env dataroomId teamId 10 = Inr jobs \<and>
      rs = map (with_fresh_urls mint teamId) (userJobs uid now jobs)"
    unfolding jobs_handler_ok by blast+
  then obtain uid' jobs' where s: "session_user env = Some uid'"
    and a: "findTeamAccess env uid' teamId = Inr True"
    and g: "getDataroomJobs env dataroomId teamId 10 = Inr jobs'"
    and rs: "rs = map (with_fresh_urls mint teamId) (userJobs uid' now jobs')"
    by blast
  show "http_method = ''GET''" by (rule m)
  have each: "\<forall>r \<in> set rs. userId r = Some uid' \<and>
            (job_status r = PENDING \<or> job_status r = PROCESSING
             \<or> (job_status r = COMPLETED \<and> (\<exists>e. expiresAt r = Some (Some e) \<and> now < e))
             \<or> (job_status r = FAILED \<and> (\<exists>c. createdAt r = Some c \<and> now - 3600000 < c)))"
  proof
    fix r
    assume "r \<in> set rs"
    then obtain job where "job \<in> set (userJobs uid' now jobs')"
      and r: "r = with_fresh_urls mint teamId job"
      unfolding rs by auto
    then have "job_filter uid' now job" by (simp add: userJobs_def)
    then have "job_filter uid' now r"
      unfolding r by (simp only: job_filter_with_fresh_urls)
    then show "userId r = Some uid' \<and>
            (job_status r = PENDING \<or> job_status r = PROCESSING
             \<or> (job_status r = COMPLETED \<and> (\<exists>e. expiresAt r = Some (Some e) \<and> now < e))
             \<or> (job_status r = FAILED \<and> (\<exists>c. createdAt r = Some c \<and> now - 3600000 < c)))"
      by (simp only: job_filter_iff)
  qed
  from s a g rs each
  show "\<exists>uid jobs. session_user env = Some uid \<and>
         findTeamAccess env uid teamId = Inr True \<and>
         getDataroomJobs env dataroomId teamId 10 = Inr jobs \<and>
         rs = map (with_fresh_urls mint teamId)
                (filter (\<lambda>job. userId job = Some uid \<and>
                   (job_status job = PENDING \<or> job_status job = PROCESSING
                    \<or> (job_status job = COMPLETED
                        \<and> (\<exists>e. expiresAt job = Some (Some e) \<and> now < e))
                    \<or> (job_status job = FAILED
                        \<and> (\<exists>c. createdAt job = Some c \<and> now - 3600000 < c))))
                   jobs) \<and>
         (\<forall>r \<in> set rs. userId r = Some uid \<and>
            (job_status r = PENDING \<or> job_status r = PROCESSING
             \<or> (job_status r = COMPLETED \<and> (\<exists>e. expiresAt r = Some (Some e) \<and> now < e))
             \<or> (job_status r = FAILED \<and> (\<exists>c. createdAt r = Some c \<and> now - 3600000 < c))))"
    unfolding userJobs_filter [symmetric] by blast
next
  assume s: "session_user env = Some uid" "findTeamAccess env uid teamId = Inr True"
    "getDataroomJobs env dataroomId teamId 10 = Inr jobs"
  let ?rs = "map (with_fresh_urls mint teamId) (userJobs uid now jobs)"
  from s have "jobs_response (jobs_handler mint env ''GET'' teamId dataroomId now) = Jobs_ok ?rs"
    by (simp add: jobs_handler_def)
  moreover have "\<forall>job \<in> set jobs.
            with_fresh_urls mint teamId job \<in> set ?rs \<longleftrightarrow>
              userId job = Some uid \<and>
              (job_status job = PENDING \<or> job_status job = PROCESSING
               \<or> (job_status job = COMPLETED
                   \<and> (\<exists>e. expiresAt job = Some (Some e) \<and> now < e))
               \<or> (job_status job = FAILED
                   \<and> (\<exists>c. createdAt job = Some c \<and> now - 3600000 < c)))"
    using listed_job_iff [of _ jobs mint teamId uid now]
    by (simp only: job_filter_iff) blast
  ultimately show "\<exists>rs. jobs_response (jobs_handler mint env ''GET'' teamId dataroomId now) =
        Jobs_ok rs \<and>
         (\<forall>job \<in> set jobs.
            with_fresh_urls mint teamId job \<in> set rs \<longleftrightarrow>
              userId job = Some uid \<and>
              (job_status job = PENDING \<or> job_status job = PROCESSING
               \<or> (job_status job = COMPLETED
                   \<and> (\<exists>e. expiresAt job = Some (Some e) \<and> now < e))
               \<or> (job_status job = FAILED
                   \<and> (\<exists>c. createdAt job = Some c \<and> now - 3600000 < c))))"
    by blast
qed

lemma example_listing:
  "jobs_handler (\<lambda>team k. None) (example_jobs_env example_store_jobs) ''GET'' ''team_1''
      ''d1'' 1700000000000 =
     \<lparr>jobs_response =
        Jobs_ok
          [example_owner_job,
           example_owner_job\<lparr>job_status := PENDING, createdAt := Some 1600000000000,
             expiresAt := None\<rparr>,
           example_owner_job\<lparr>job_status := FAILED, createdAt := Some 1699999940000,
             expiresAt := None\<rparr>],
      jobs_mint_calls = map (\<lambda>k. (''team_1'', k)) example_keys, jobs_logs = []\<rparr>"
  by code_simp

theorem listing_visibility_witness:
  "session_user (example_jobs_env example_store_jobs) = Some ''user_1'' \<and>
   findTeamAccess (example_jobs_env example_store_jobs) ''user_1'' ''team_1'' = Inr True \<and>
   getDataroomJobs (example_jobs_env example_store_jobs) ''d1'' ''team_1'' 10 =
     Inr example_store_jobs \<and>
   jobs_response
     (jobs_handler (\<lambda>team k. None) (example_jobs_env example_store_jobs) ''GET'' ''team_1''
        ''d1'' 1700000000000) =
     Jobs_ok
       [example_owner_job,
        example_owner_job\<lparr>job_status := PENDING, createdAt := Some 1600000000000,
          expiresAt := None\<rparr>,
        example_owner_job\<lparr>job_status := FAILED, createdAt := Some 1699999940000,
          expiresAt := None\<rparr>] \<and>
   example_store_jobs ! 3 \<in> set example_store_jobs \<and>
   job_status (example_store_jobs ! 3) = FAILED \<and>
   createdAt (example_store_jobs ! 3) = Some 1699992800000 \<and>
   with_fresh_urls (\<lambda>team k. None) ''team_1'' (example_store_jobs ! 3) \<notin>
     set [example_owner_job,
        example_owner_job\<lparr>job_status := PENDING, createdAt := Some 1600000000000,
          expiresAt := None\<rparr>,
        example_owner_job\<lparr>job_status := FAILED, createdAt := Some 1699999940000,
          expiresAt := None\<rparr>]"
proof -
  let ?env = "example_jobs_env example_store_jobs"
  let ?mint = "\<lambda>team k. None :: string option"
  let ?old = "example_store_jobs ! 3"
  let ?listed = "[example_owner_job,
        example_owner_job\<lparr>job_status := PENDING, createdAt := Some 1600000000000,
          expiresAt := None\<rparr>,
        example_owner_job\<lparr>job_status := FAILED, createdAt := Some 1699999940000,
          expiresAt := None\<rparr>]"
  note e = example_jobs_env_fields [of example_store_jobs]
  have r: "jobs_response (jobs_handler ?mint ?env ''GET'' ''team_1'' ''d1'' 1700000000000) =
      Jobs_ok ?listed"
    by (simp add: example_listing)
  have m: "?old \<in> set example_store_jobs"
    by (simp add: example_store_jobs_def)
  have f: "job_status ?old = FAILED" "createdAt ?old = Some 1699992800000"
    "userId ?old = Some ''user_1''"
    by (simp_all add: example_store_jobs_def example_owner_job_def example_viewer_job_def)
  from listing_visibility [where mint = ?mint and env = ?env and uid = "''user_1''"
      and teamId = "''team_1''" and dataroomId = "''d1''" and jobs = example_store_jobs
      and now = 1700000000000, THEN conjunct2] e
  obtain rs where rs: "jobs_response
        (jobs_handler ?mint ?env ''GET'' ''team_1'' ''d1'' 1700000000000) = Jobs_ok rs"
    and each: "\<forall>job \<in> set example_store_jobs.
            with_fresh_urls ?mint ''team_1'' job \<in> set rs \<longleftrightarrow>
              userId job = Some ''user_1'' \<and>
              (job_status job = PENDING \<or> job_status job = PROCESSING
               \<or> (job_status job = COMPLETED
                   \<and> (\<exists>e. expiresAt job = Some (Some e) \<and> 1700000000000 < e))
               \<or> (job_status job = FAILED
                   \<and> (\<exists>c. createdAt job = Some c \<and> 1700000000000 - 3600000 < c)))"
    by blast
  from rs r have "rs = ?listed" by simp
  moreover from each m f have "with_fresh_urls ?mint ''team_1'' ?old \<notin> set rs"
    by simp
  ultimately have "with_fresh_urls ?mint ''team_1'' ?old \<notin> set ?listed"
    by simp
  with r m f e show ?thesis by simp
qed

text \<open>
  C10. Whenever the owner's job listing answers with jobs, every COMPLETED job among
  them has an expiresAt that is present and strictly in the future, and no COMPLETED
  job of the store whose expiresAt is absent is among them, refreshed or as stored,
  also when it belongs to the requesting user. For a GET of a signed-in member of the
  team the listing does answer with jobs, and a COMPLETED job of the store is among
  them (refreshed) exactly when it belongs to the user and its expiresAt is present
  and strictly in the future. The visibility filter itself is true of a COMPLETED job
  exactly when the job belongs to the user and its expiresAt is present and strictly
  in the future.
\<close>

theorem listing_hides_completed_without_expiry:
  "(jobs_response (jobs_handler mint env http_method teamId dataroomId now) = Jobs_ok rs \<longrightarrow>
      (\<forall>r \<in> set rs. job_status r = COMPLETED \<longrightarrow>
         (\<exists>e. expiresAt r = Some (Some e) \<and> now < e)) \<and>
      (\<forall>job. job_status job = COMPLETED \<longrightarrow> expiresAt job = None \<longrightarrow>
         job \<notin> set rs \<and> with_fresh_urls mint teamId job \<notin> set rs)) \<and>
   (session_user env = Some uid \<longrightarrow> findTeamAccess env uid teamId = Inr True \<longrightarrow>
    getDataroomJobs env dataroomId teamId 10 = Inr jobs \<longrightarrow>
      (\<exists>rs. jobs_response (jobs_handler mint env ''GET'' teamId dataroomId now) = Jobs_ok rs \<and>
         (\<forall>job \<in> set jobs. job_status job = COMPLETED \<longrightarrow>
            (with_fresh_urls mint teamId job \<in> set rs \<longleftrightarrow>
               userId job = Some uid \<and> (\<exists>e. expiresAt job = Some (Some e) \<and> now < e))))) \<and>
   (job_status j = COMPLETED \<longrightarrow>
      (job_filter uid now j \<longleftrightarrow>
         userId j = Some uid \<and> (\<exists>e. expiresAt j = Some (Some e) \<and> now < e)))"
proof (intro conjI impI)
  assume "job_status j = COMPLETED"
  then show "job_filter uid now j \<longleftrightarrow>
         userId j = Some uid \<and> (\<exists>e. expiresAt j = Some (Some e) \<and> now < e)"
    by (simp add: job_filter_iff)
next
  assume "jobs_response (jobs_handler mint env http_method teamId dataroomId now) = Jobs_ok rs"
  then obtain uid' jobs' where
    rs: "rs = map (with_fresh_urls mint teamId) (userJobs uid' now jobs')"
    unfolding jobs_handler_ok by blast
  have listed: "job_filter uid' now r" if "r \<in> set rs" for r
  proof -
    from that obtain job where "job \<in> set (userJobs uid' now jobs')"
      and r: "r = with_fresh_urls mint teamId job"
      unfolding rs by auto
    then have "job_filter uid' now job" by (simp add: userJobs_def)
    then show ?thesis
      unfolding r by (simp only: job_filter_with_fresh_urls)
  qed
  show "\<forall>r \<in> set rs. job_status r = COMPLETED \<longrightarrow>
         (\<exists>e. expiresAt r = Some (Some e) \<and> now < e)"
  proof (intro ballI impI)
    fix r :: DownloadJob
    assume "r \<in> set rs" and c: "job_status r = COMPLETED"
    then have "job_filter uid' now r" by (simp add: listed)
    with c show "\<exists>e. expiresAt r = Some (Some e) \<and> now < e"
      by (simp add: job_filter_iff)
  qed
  show "\<forall>job. job_status job = COMPLETED \<longrightarrow> expiresAt job = None \<longrightarrow>
         job \<notin> set rs \<and> with_fresh_urls mint teamId job \<notin> set rs"
  proof (intro allI impI conjI)
    fix job :: DownloadJob
    assume c: "job_status job = COMPLETED" and n: "expiresAt job = None"
    then have h: "\<not> job_filter uid' now job"
      by (simp add: job_filter_iff)
    then show "job \<notin> set rs" using listed by blast
    from h have "\<not> job_filter uid' now (with_fresh_urls mint teamId job)"
      by (simp add: job_filter_with_fresh_urls)
    then show "with_fresh_urls mint teamId job \<notin> set rs" using listed by blast
  qed
next
  assume s: "session_user env = Some uid" "findTeamAccess env uid teamId = Inr True"
    "getDataroomJobs env dataroomId teamId 10 = Inr jobs"
  let ?rs = "map (with_fresh_urls mint teamId) (userJobs uid now jobs)"
  from s have "jobs_response (jobs_handler mint env ''GET'' teamId dataroomId now) = Jobs_ok ?rs"
    by (simp add: jobs_handler_def)
  moreover have "\<forall>job \<in> set jobs. job_status job = COMPLETED \<longrightarrow>
            (with_fresh_urls mint teamId job \<in> set ?rs \<longleftrightarrow>
               userId job = Some uid \<and> (\<exists>e. expiresAt job = Some (Some e) \<and> now < e))"
    using listed_job_iff [of _ jobs mint teamId uid now]
    by (simp add: job_filter_iff)
  ultimately show "\<exists>rs. jobs_response (jobs_handler mint env ''GET'' teamId dataroomId now) =
        Jobs_ok rs \<and>
         (\<forall>job \<in> set jobs. job_status job = COMPLETED \<longrightarrow>
            (with_fresh_urls mint teamId job \<in> set rs \<longleftrightarrow>
               userId job = Some uid \<and> (\<exists>e. expiresAt job = Some (Some e) \<and> now < e)))"
    by blast
qed

theorem listing_hides_completed_without_expiry_witness:
  "jobs_response
     (jobs_handler (\<lambda>team k. None) (example_jobs_env example_store_jobs) ''GET'' ''team_1''
        ''d1'' 1700000000000) =
     Jobs_ok
       [example_owner_job,
        example_owner_job\<lparr>job_status := PENDING, createdAt := Some 1600000000000,
          expiresAt := None\<rparr>,
        example_owner_job\<lparr>job_status := FAILED, createdAt := Some 1699999940000,
          expiresAt := None\<rparr>] \<and>
   example_completed_job \<in> set example_store_jobs \<and>
   job_status example_completed_job = COMPLETED \<and>
   userId example_completed_job = Some ''user_1'' \<and>
   expiresAt example_completed_job = None \<and>
   example_completed_job \<notin>
     set [example_owner_job,
        example_owner_job\<lparr>job_status := PENDING, createdAt := Some 1600000000000,
          expiresAt := None\<rparr>,
        example_owner_job\<lparr>job_status := FAILED, createdAt := Some 1699999940000,
          expiresAt := None\<rparr>]"
proof -
  let ?env = "example_jobs_env example_store_jobs"
  let ?mint = "\<lambda>team k. None :: string option"
  let ?listed = "[example_owner_job,
        example_owner_job\<lparr>job_status := PENDING, createdAt := Some 1600000000000,
          expiresAt := None\<rparr>,
        example_owner_job\<lparr>job_status := FAILED, createdAt := Some 1699999940000,
          expiresAt := None\<rparr>]"
  have r: "jobs_response (jobs_handler ?mint ?env ''GET'' ''team_1'' ''d1'' 1700000000000) =
      Jobs_ok ?listed"
    by (simp add: example_listing)
  have f: "example_completed_job \<in> set example_store_jobs"
    "job_status example_completed_job = COMPLETED"
    "userId example_completed_job = Some ''user_1''"
    "expiresAt example_completed_job = None"
    by (simp_all add: example_store_jobs_def example_completed_job_def)
  from listing_hides_completed_without_expiry [where mint = ?mint and env = ?env
      and http_method = "''GET''" and teamId = "''team_1''" and dataroomId = "''d1''"
      and now = 1700000000000 and rs = ?listed, THEN conjunct1] r
  have "\<forall>job. job_status job = COMPLETED \<longrightarrow> expiresAt job = None \<longrightarrow>
         job \<notin> set ?listed \<and> with_fresh_urls ?mint ''team_1'' job \<notin> set ?listed"
    by blast
  with f have "example_completed_job \<notin> set ?listed" by blast
  with r f show ?thesis by simp
qed

section \<open>The notification task\<close>

lemma adminEmail_member:
  assumes "adminEmail (team_users db teamId) = Some a"
  shows "\<exists>u \<in> set (userTeams db).
     ut_role u = ADMIN \<and> ut_status u = ACTIVE \<and> ut_teamId u = teamId \<and> ut_email u = Some a"
proof -
  from assms obtain u where f: "find (\<lambda>u. ut_role u = ADMIN) (team_users db teamId) = Some u"
    and e: "ut_email u = Some a"
    by (auto simp add: adminEmail_def split: option.splits)
  from f have "u \<in> set (team_users db teamId)" and "ut_role u = ADMIN"
    by (auto simp add: find_Some_iff)
  then have "u \<in> set (userTeams db)" "ut_status u = ACTIVE" "ut_teamId u = teamId"
    by (auto simp add: team_users_def)
  with e \<open>ut_role u = ADMIN\<close> show ?thesis by blast
qed

text \<open>
  C9. When the store answers and no active member of the team with the ADMIN role has
  an email (a non-empty one), the fired task returns: it throws nothing, it makes no
  request to the send endpoint, and it has written a log line.
\<close>

theorem no_admin_email_no_send:
  assumes "\<forall>u \<in> set (userTeams db).
      ut_role u = ADMIN \<and> ut_status u = ACTIVE \<and> ut_teamId u = p_teamId payload
        \<longrightarrow> \<not> truthy (ut_email u)"
  shows "task_outcome (sendDataroomUploadNotificationTask send (Some db) payload now) = Returned
    \<and> fetch_calls (sendDataroomUploadNotificationTask send (Some db) payload now) = []
    \<and> task_logs (sendDataroomUploadNotificationTask send (Some db) payload now) \<noteq> []"
proof -
  have no: "adminEmail (team_users db (p_teamId payload)) = Some a \<Longrightarrow> a = []" for a
    using adminEmail_member [of db "p_teamId payload" a] assms
    by (auto simp add: truthy_def)
  show ?thesis
    by (auto simp add: sendDataroomUploadNotificationTask_def task_return_def Let_def
        dest: no split: option.splits)
qed

theorem no_admin_email_no_send_witness:
  "sendDataroomUploadNotificationTask (\<lambda>body. Send_ok (Some ''sent''))
      (Some (example_db None)) example_payload 1700000000000 =
     \<lparr>task_outcome = Returned, fetch_calls = [],
      task_logs = [''No admin email found for team'']\<rparr> \<and>
   recentUploads (example_db None) example_payload 1700000000000 \<noteq> [] \<and>
   find (\<lambda>d. dr_id d = p_dataroomId example_payload) (datarooms (example_db None)) \<noteq> None \<and>
   fetch_calls
     (sendDataroomUploadNotificationTask (\<lambda>body. Send_ok (Some ''sent''))
        (Some (example_db (Some ''carol@example.com''))) example_payload 1700000000000) \<noteq> []"
proof -
  have a: "\<forall>u \<in> set (userTeams (example_db None)).
      ut_role u = ADMIN \<and> ut_status u = ACTIVE \<and> ut_teamId u = p_teamId example_payload
        \<longrightarrow> \<not> truthy (ut_email u)"
    by (simp add: example_db_def truthy_def)
  have l: "task_logs (sendDataroomUploadNotificationTask (\<lambda>body. Send_ok (Some ''sent''))
      (Some (example_db None)) example_payload 1700000000000) =
     [''No admin email found for team'']"
    by code_simp
  have u: "recentUploads (example_db None) example_payload 1700000000000 \<noteq> []"
    by code_simp
  have d: "find (\<lambda>d. dr_id d = p_dataroomId example_payload) (datarooms (example_db None))
      \<noteq> None"
    by code_simp
  have s: "fetch_calls
     (sendDataroomUploadNotificationTask (\<lambda>body. Send_ok (Some ''sent''))
        (Some (example_db (Some ''carol@example.com''))) example_payload 1700000000000) \<noteq> []"
    by code_simp
  let ?r = "sendDataroomUploadNotificationTask (\<lambda>body. Send_ok (Some ''sent''))
      (Some (example_db None)) example_payload 1700000000000"
  from no_admin_email_no_send [OF a, of "\<lambda>body. Send_ok (Some ''sent'')" 1700000000000] l
  have "?r = \<lparr>task_outcome = Returned, fetch_calls = [],
      task_logs = [''No admin email found for team'']\<rparr>"
    by (cases ?r) simp
  with u d s show ?thesis by simp
qed

section \<open>Conversion with the DOCX sanitization fallback\<close>

lemma sanitize_and_retry_counts:
  "count_list (conversion_events (sanitize_and_retry env)) Sanitize \<le> 1"
  "count_list (conversion_events (sanitize_and_retry env)) Retry_request \<le> 1"
  "count_list (conversion_events (sanitize_and_retry env)) Sanitize =
     (if docx_ready env then 1 else 0)"
  "count_list (conversion_events (sanitize_and_retry env)) Retry_request =
     (if docx_ready env \<and> sanitizer_runs env \<and> output_read env then 1 else 0)"
  by (simp_all add: sanitize_and_retry_def docx_ready_def split: option.splits)

lemma sanitize_and_retry_outcome:
  "conversion_outcome (sanitize_and_retry env) = Converted \<longleftrightarrow>
     docx_ready env \<and> sanitizer_runs env \<and> output_read env \<and> retry_succeeds env"
  by (simp add: sanitize_and_retry_def docx_ready_def retry_succeeds_def
      split: option.splits)

lemma convert_failed_docx:
  "primary_failed env \<Longrightarrow>
     convert env docx_type =
       (sanitize_and_retry env)
         \<lparr>conversion_events := Primary_request # conversion_events (sanitize_and_retry env)\<rparr>"
  by (simp add: convert_def primary_failed_def timed_out_response_def Let_def
      split: option.splits)

lemma convert_failed_other:
  "primary_failed env \<Longrightarrow> contentType \<noteq> docx_type \<Longrightarrow>
     \<exists>m s. convert env contentType =
       \<lparr>conversion_outcome = Threw (Conversion_failed m s),
        conversion_events = [Primary_request]\<rparr>"
  by (simp add: convert_def primary_failed_def timed_out_response_def Let_def
      split: option.splits)

text \<open>
  C7 (as amended). When the primary conversion request fails: for a content type
  other than DOCX the task throws at once, with no sanitization and no retry. For
  DOCX the sanitizer runs at most once and the conversion is retried at most once;
  the sanitizer runs exactly once when the DOCX was downloaded (HTTP ok, content type
  absent, DOCX or octet-stream) and written, and not at all otherwise; the retry is
  made exactly once when moreover the sanitizer ran to its end and its output was
  read; and the task ends converted only when that retry succeeds: in every other
  case it throws.
\<close>

theorem sanitize_once_retry_once:
  "primary_failed env \<longrightarrow>
     (contentType \<noteq> docx_type \<longrightarrow>
        (\<exists>m s. conversion_outcome (convert env contentType) = Threw (Conversion_failed m s)) \<and>
        count_list (conversion_events (convert env contentType)) Sanitize = 0 \<and>
        count_list (conversion_events (convert env contentType)) Retry_request = 0) \<and>
     (count_list (conversion_events (convert env docx_type)) Sanitize \<le> 1 \<and>
      count_list (conversion_events (convert env docx_type)) Retry_request \<le> 1 \<and>
      count_list (conversion_events (convert env docx_type)) Sanitize =
        (if docx_ready env then 1 else 0) \<and>
      count_list (conversion_events (convert env docx_type)) Retry_request =
        (if docx_ready env \<and> sanitizer_runs env \<and> output_read env then 1 else 0) \<and>
      (conversion_outcome (convert env docx_type) = Converted \<longleftrightarrow>
         docx_ready env \<and> sanitizer_runs env \<and> output_read env \<and> retry_succeeds env) \<and>
      (conversion_outcome (convert env docx_type) \<noteq> Converted \<longrightarrow>
         (\<exists>e. conversion_outcome (convert env docx_type) = Threw e)))"
proof (intro impI conjI)
  assume f: "primary_failed env" and o: "contentType \<noteq> docx_type"
  from convert_failed_other [OF f o] obtain m s where
    c: "convert env contentType =
       \<lparr>conversion_outcome = Threw (Conversion_failed m s),
        conversion_events = [Primary_request]\<rparr>" by blast
  show "\<exists>m s. conversion_outcome (convert env contentType) = Threw (Conversion_failed m s)"
    by (simp add: c)
  show "count_list (conversion_events (convert env contentType)) Sanitize = 0"
    by (simp add: c)
  show "count_list (conversion_events (convert env contentType)) Retry_request = 0"
    by (simp add: c)
next
  assume f: "primary_failed env"
  note c = convert_failed_docx [OF f]
  show "count_list (conversion_events (convert env docx_type)) Sanitize \<le> 1"
    using sanitize_and_retry_counts(1) [of env] by (simp add: c)
  show "count_list (conversion_events (convert env docx_type)) Retry_request \<le> 1"
    using sanitize_and_retry_counts(2) [of env] by (simp add: c)
  show "count_list (conversion_events (convert env docx_type)) Sanitize =
        (if docx_ready env then 1 else 0)"
    using sanitize_and_retry_counts(3) [of env] by (simp add: c)
  show "count_list (conversion_events (convert env docx_type)) Retry_request =
        (if docx_ready env \<and> sanitizer_runs env \<and> output_read env then 1 else 0)"
    using sanitize_and_retry_counts(4) [of env] by (simp add: c)
  show "conversion_outcome (convert env docx_type) = Converted \<longleftrightarrow>
         docx_ready env \<and> sanitizer_runs env \<and> output_read env \<and> retry_succeeds env"
    using sanitize_and_retry_outcome [of env] by (simp add: c)
  assume "conversion_outcome (convert env docx_type) \<noteq> Converted"
  then show "\<exists>e. conversion_outcome (convert env docx_type) = Threw e"
    by (cases "conversion_outcome (convert env docx_type)") simp_all
qed

lemma example_conversion_env_facts:
  "primary_failed example_conversion_env" "docx_ready example_conversion_env"
  "sanitizer_runs example_conversion_env" "output_read example_conversion_env"
  "\<not> retry_succeeds example_conversion_env"
  "primary_failed example_forbidden_env" "\<not> docx_ready example_forbidden_env"
  by (simp_all add: primary_failed_def docx_ready_def retry_succeeds_def
      example_conversion_env_def example_forbidden_env_def example_error_response_def
      example_ok_response_def unexpected_content_type_def)

theorem sanitize_once_retry_once_witness:
  "primary_failed example_conversion_env \<and>
   count_list (conversion_events (convert example_conversion_env docx_type)) Sanitize = 1 \<and>
   count_list (conversion_events (convert example_conversion_env docx_type)) Retry_request = 1 \<and>
   conversion_outcome (convert example_conversion_env docx_type) \<noteq> Converted \<and>
   (\<exists>e. conversion_outcome (convert example_conversion_env docx_type) = Threw e) \<and>
   count_list (conversion_events (convert example_conversion_env ''application/msword''))
     Sanitize = 0"
proof -
  have "''application/msword'' \<noteq> docx_type" by (simp add: docx_type_def)
  with sanitize_once_retry_once [of example_conversion_env "''application/msword''"]
  show ?thesis
    by (simp add: example_conversion_env_facts)
qed

text \<open>
  Two runs at which the claim as stated fails. A DOCX whose primary conversion fails
  and whose download for sanitization is answered 403: the task throws with no
  sanitization pass and no retry. A DOCX whose primary conversion fails and whose
  sanitizer script fails: the task throws after one sanitization pass with no retry.
\<close>

theorem docx_failure_without_sanitization:
  "primary_failed example_forbidden_env \<and>
   convert example_forbidden_env docx_type =
     \<lparr>conversion_outcome = Threw (Docx_fetch_status 403 ''Forbidden''),
      conversion_events = [Primary_request, Download_docx, Cleanup]\<rparr> \<and>
   count_list (conversion_events (convert example_forbidden_env docx_type)) Sanitize = 0 \<and>
   count_list (conversion_events (convert example_forbidden_env docx_type)) Retry_request = 0 \<and>
   primary_failed (example_conversion_env\<lparr>sanitizer_runs := False\<rparr>) \<and>
   convert (example_conversion_env\<lparr>sanitizer_runs := False\<rparr>) docx_type =
     \<lparr>conversion_outcome = Threw Rejected_in_fallback,
      conversion_events = [Primary_request, Download_docx, Sanitize, Cleanup]\<rparr>"
proof -
  have a: "convert example_forbidden_env docx_type =
     \<lparr>conversion_outcome = Threw (Docx_fetch_status 403 ''Forbidden''),
      conversion_events = [Primary_request, Download_docx, Cleanup]\<rparr>"
    by (simp add: convert_failed_docx example_conversion_env_facts)
       (simp add: sanitize_and_retry_def example_forbidden_env_def example_error_response_def)
  have f: "primary_failed (example_conversion_env\<lparr>sanitizer_runs := False\<rparr>)"
    by (simp add: primary_failed_def example_conversion_env_def example_error_response_def)
  have b: "convert (example_conversion_env\<lparr>sanitizer_runs := False\<rparr>) docx_type =
     \<lparr>conversion_outcome = Threw Rejected_in_fallback,
      conversion_events = [Primary_request, Download_docx, Sanitize, Cleanup]\<rparr>"
    by (simp add: convert_failed_docx [OF f])
       (simp add: sanitize_and_retry_def example_conversion_env_def example_ok_response_def
          unexpected_content_type_def)
  from a b f show ?thesis by (simp add: example_conversion_env_facts)
qed

section \<open>Presigned URLs\<close>


lemma strip_suffix_append: "strip_suffix p (s @ p) = Some s"
  by (simp add: strip_suffix_def suffix_def)


lemma strip_suffix_Some: "strip_suffix p s = Some r \<longleftrightarrow> s = r @ p"
  by (auto simp add: strip_suffix_def suffix_def)

lemma strip_suffix_None: "strip_suffix p s = None \<longleftrightarrow> \<not> suffix p s"
  by (simp add: strip_suffix_def)







lemma virtualNoRegionMatch_intro:
  "b \<noteq> [] \<Longrightarrow> virtualNoRegionMatch (b @ ''.s3.amazonaws.com'') = Some b"
  unfolding virtualNoRegionMatch_def strip_suffix_append option.case by simp

lemma virtualNoRegionMatch_iff:
  "virtualNoRegionMatch h = Some b \<longleftrightarrow> h = b @ ''.s3.amazonaws.com'' \<and> b \<noteq> []"
proof
  assume "virtualNoRegionMatch h = Some b"
  then show "h = b @ ''.s3.amazonaws.com'' \<and> b \<noteq> []"
    by (auto simp add: virtualNoRegionMatch_def strip_suffix_Some
        split: option.splits if_splits)
next
  assume "h = b @ ''.s3.amazonaws.com'' \<and> b \<noteq> []"
  then show "virtualNoRegionMatch h = Some b"
    using virtualNoRegionMatch_intro [of b] by simp
qed

































section \<open>Download batch endpoint\<close>

lemma required_fields_missing:
  "body_teamId req = None \<or> body_sourceBucket req = None \<or> body_fileKeys req = None
     \<or> body_folderStructure req = None \<Longrightarrow> required_fields req = None"
  by (auto simp add: required_fields_def split: option.splits)

lemma batch_handler_missing:
  assumes "required_fields req = None"
  shows "batch_invocations (batch_handler env req) = []"
    and "batch_method req = ''POST'' \<Longrightarrow>
      bearer_token (authorization req) = internal_api_key env \<Longrightarrow>
      batch_response (batch_handler env req) = Batch_message 400 ''Missing required parameters''"
  using assms by (simp_all add: batch_handler_def)

lemma batch_handler_invokes:
  assumes "batch_method req = ''POST''"
    and "bearer_token (authorization req) = internal_api_key env"
    and "required_fields req = Some (teamId, sourceBucket, fileKeys, folderStructure)"
    and "storage_config env teamId = Inr functionName"
  shows "batch_handler env req =
     batch_reply env
       \<lparr>inv_functionName = functionName, inv_sourceBucket = sourceBucket,
        inv_fileKeys = fileKeys, inv_folderStructure = folderStructure\<rparr>
       (lambda_send env
          \<lparr>inv_functionName = functionName, inv_sourceBucket = sourceBucket,
           inv_fileKeys = fileKeys, inv_folderStructure = folderStructure\<rparr>)"
  using assms by (simp add: batch_handler_def Let_def)

lemma batch_reply_no_payload:
  "batch_response (batch_reply env invocation (Inr None)) =
     Batch_failed ''Lambda response payload is undefined or empty''"
  by (simp add: batch_reply_def batch_failure_def)

lemma batch_reply_empty_payload:
  "batch_response (batch_reply env invocation (Inr (Some []))) =
     Batch_failed ''Unexpected end of JSON input''"
  by (simp add: batch_reply_def batch_failure_def parse_envelope_def)

lemma batch_reply_errorMessage:
  assumes "parse_envelope env payload_text = Inr payload" "env_errorMessage payload = Some m"
  shows "m \<noteq> [] \<Longrightarrow>
      batch_response (batch_reply env invocation (Inr (Some payload_text))) =
        Batch_failed (''Lambda error: '' @ m)"
    and "env_body payload = None \<Longrightarrow>
      \<exists>d. batch_response (batch_reply env invocation (Inr (Some payload_text))) = Batch_failed d"
  using assms by (simp_all add: batch_reply_def batch_failure_def parse_body_def)

lemma batch_reply_falsy_errorMessage:
  assumes "parse_envelope env payload_text = Inr payload"
    and "env_errorMessage payload = None \<or> env_errorMessage payload = Some []"
  shows "batch_reply env invocation (Inr (Some payload_text)) =
     (case parse_body env (env_body payload) of
        Inl message \<Rightarrow> batch_failure message [invocation]
      | Inr downloadUrl \<Rightarrow>
          \<lparr>batch_response = Batch_ok downloadUrl (s3KeyInfo_of env downloadUrl),
           batch_invocations = [invocation], batch_logs = []\<rparr>)"
  using assms by (auto simp add: batch_reply_def)

text \<open>
  C8 (as amended). A request that lacks teamId, sourceBucket, fileKeys or
  folderStructure never reaches the backend, and when it is an authorized POST it is
  answered 400. For a request that reaches the backend the response is the one computed
  from the backend's answer, and it is the 500 failure, never the success response,
  when the answer has no payload (with the message that the payload is undefined or
  empty), when the payload is empty, and when the payload holds a non-empty
  errorMessage: the failure then carries \<open>Lambda error:\<close> and that message (an
  envelope with an empty errorMessage and no body fails as well). A payload without an
  errorMessage, or with an empty one, is answered from its body: with the failure when
  the body is missing or does not parse, with the success response and the body's
  download URL otherwise.
\<close>

theorem batch_backend_errors:
  "((body_teamId req = None \<or> body_sourceBucket req = None \<or> body_fileKeys req = None
      \<or> body_folderStructure req = None) \<longrightarrow>
      batch_invocations (batch_handler env req) = [] \<and>
      (batch_method req = ''POST'' \<longrightarrow>
       bearer_token (authorization req) = internal_api_key env \<longrightarrow>
         batch_response (batch_handler env req) =
           Batch_message 400 ''Missing required parameters'')) \<and>
   (batch_method req = ''POST'' \<longrightarrow>
    bearer_token (authorization req) = internal_api_key env \<longrightarrow>
    required_fields req = Some (teamId, sourceBucket, fileKeys, folderStructure) \<longrightarrow>
    storage_config env teamId = Inr functionName \<longrightarrow>
      batch_handler env req =
        batch_reply env
          \<lparr>inv_functionName = functionName, inv_sourceBucket = sourceBucket,
           inv_fileKeys = fileKeys, inv_folderStructure = folderStructure\<rparr>
          (lambda_send env
             \<lparr>inv_functionName = functionName, inv_sourceBucket = sourceBucket,
              inv_fileKeys = fileKeys, inv_folderStructure = folderStructure\<rparr>)) \<and>
   batch_response (batch_reply env invocation (Inr None)) =
     Batch_failed ''Lambda response payload is undefined or empty'' \<and>
   batch_response (batch_reply env invocation (Inr (Some []))) =
     Batch_failed ''Unexpected end of JSON input'' \<and>
   (parse_envelope env payload_text = Inr payload \<longrightarrow> env_errorMessage payload = Some m \<longrightarrow>
      (m \<noteq> [] \<longrightarrow>
         batch_response (batch_reply env invocation (Inr (Some payload_text))) =
           Batch_failed (''Lambda error: '' @ m)) \<and>
      (env_body payload = None \<longrightarrow>
         (\<exists>d. batch_response (batch_reply env invocation (Inr (Some payload_text))) =
            Batch_failed d))) \<and>
   (parse_envelope env payload_text = Inr payload \<longrightarrow>
    env_errorMessage payload = None \<or> env_errorMessage payload = Some [] \<longrightarrow>
      batch_reply env invocation (Inr (Some payload_text)) =
        (case parse_body env (env_body payload) of
           Inl message \<Rightarrow> batch_failure message [invocation]
         | Inr downloadUrl \<Rightarrow>
             \<lparr>batch_response = Batch_ok downloadUrl (s3KeyInfo_of env downloadUrl),
              batch_invocations = [invocation], batch_logs = []\<rparr>) \<and>
      (env_body payload = None \<longrightarrow>
         batch_response (batch_reply env invocation (Inr (Some payload_text))) =
           Batch_failed ''\"undefined\" is not valid JSON''))"
proof (intro conjI impI)
  assume a: "body_teamId req = None \<or> body_sourceBucket req = None \<or> body_fileKeys req = None
      \<or> body_folderStructure req = None"
  show "batch_invocations (batch_handler env req) = []"
    using required_fields_missing [OF a] by (rule batch_handler_missing(1))
  assume "batch_method req = ''POST''" "bearer_token (authorization req) = internal_api_key env"
  then show "batch_response (batch_handler env req) =
      Batch_message 400 ''Missing required parameters''"
    using batch_handler_missing(2) [OF required_fields_missing [OF a]] by simp
next
  assume "batch_method req = ''POST''" "bearer_token (authorization req) = internal_api_key env"
    "required_fields req = Some (teamId, sourceBucket, fileKeys, folderStructure)"
    "storage_config env teamId = Inr functionName"
  then show "batch_handler env req =
        batch_reply env
          \<lparr>inv_functionName = functionName, inv_sourceBucket = sourceBucket,
           inv_fileKeys = fileKeys, inv_folderStructure = folderStructure\<rparr>
          (lambda_send env
             \<lparr>inv_functionName = functionName, inv_sourceBucket = sourceBucket,
              inv_fileKeys = fileKeys, inv_folderStructure = folderStructure\<rparr>)"
    by (rule batch_handler_invokes)
next
  show "batch_response (batch_reply env invocation (Inr None)) =
     Batch_failed ''Lambda response payload is undefined or empty''"
    by (rule batch_reply_no_payload)
next
  show "batch_response (batch_reply env invocation (Inr (Some []))) =
     Batch_failed ''Unexpected end of JSON input''"
    by (rule batch_reply_empty_payload)
next
  assume p: "parse_envelope env payload_text = Inr payload" "env_errorMessage payload = Some m"
  {
    assume "m \<noteq> []"
    then show "batch_response (batch_reply env invocation (Inr (Some payload_text))) =
           Batch_failed (''Lambda error: '' @ m)"
      by (rule batch_reply_errorMessage(1) [OF p])
  }
  {
    assume "env_body payload = None"
    then show "\<exists>d. batch_response (batch_reply env invocation (Inr (Some payload_text))) =
        Batch_failed d"
      by (rule batch_reply_errorMessage(2) [OF p])
  }
next
  assume "parse_envelope env payload_text = Inr payload"
    "env_errorMessage payload = None \<or> env_errorMessage payload = Some []"
  then show "batch_reply env invocation (Inr (Some payload_text)) =
        (case parse_body env (env_body payload) of
           Inl message \<Rightarrow> batch_failure message [invocation]
         | Inr downloadUrl \<Rightarrow>
             \<lparr>batch_response = Batch_ok downloadUrl (s3KeyInfo_of env downloadUrl),
              batch_invocations = [invocation], batch_logs = []\<rparr>)"
    by (rule batch_reply_falsy_errorMessage)
next
  assume "parse_envelope env payload_text = Inr payload"
    "env_errorMessage payload = None \<or> env_errorMessage payload = Some []"
    and "env_body payload = None"
  then show "batch_response (batch_reply env invocation (Inr (Some payload_text))) =
           Batch_failed ''\"undefined\" is not valid JSON''"
    by (simp add: batch_reply_falsy_errorMessage parse_body_def batch_failure_def)
qed

lemma example_batch_request_fields:
  "batch_method example_batch_request = ''POST''"
  "bearer_token (authorization example_batch_request) = Some ''secret''"
  "bearer_token (authorization (example_batch_request\<lparr>body_fileKeys := None\<rparr>)) =
     Some ''secret''"
  "required_fields example_batch_request =
     Some (''team_1'', ''bucket1'', [''a.pdf'', ''b.pdf''], [(''a.pdf'', ''/'')])"
  by (simp_all add: example_batch_request_def bearer_token_def js_index_def
      required_fields_def)

theorem batch_backend_errors_witness:
  "batch_handler (example_batch_env None) (example_batch_request\<lparr>body_fileKeys := None\<rparr>) =
     \<lparr>batch_response = Batch_message 400 ''Missing required parameters'',
      batch_invocations = [], batch_logs = []\<rparr> \<and>
   batch_response
     (batch_handler (example_batch_env (Some ''{\"errorMessage\":\"Task timed out\"}''))
        example_batch_request) = Batch_failed ''Lambda error: Task timed out'' \<and>
   batch_response (batch_handler (example_batch_env None) example_batch_request) =
     Batch_failed ''Lambda response payload is undefined or empty'' \<and>
   batch_handler (example_batch_env (Some example_result_payload)) example_batch_request =
     \<lparr>batch_response =
        Batch_ok (Some ''https://bucket1.s3.us-east-1.amazonaws.com/exports/x.zip'')
          (Some \<lparr>bucket = ''bucket1'', key = ''exports/x.zip'', region = ''us-east-1''\<rparr>),
      batch_invocations =
        [\<lparr>inv_functionName = ''bulk-download'', inv_sourceBucket = ''bucket1'',
          inv_fileKeys = [''a.pdf'', ''b.pdf''], inv_folderStructure = [(''a.pdf'', ''/'')]\<rparr>],
      batch_logs = []\<rparr>"
proof -
  let ?inv = "\<lparr>inv_functionName = ''bulk-download'', inv_sourceBucket = ''bucket1'',
      inv_fileKeys = [''a.pdf'', ''b.pdf''], inv_folderStructure = [(''a.pdf'', ''/'')]\<rparr>"
  let ?text = "''{\"errorMessage\":\"Task timed out\"}''"
  let ?req = "example_batch_request\<lparr>body_fileKeys := None\<rparr>"
  have w1: "batch_handler (example_batch_env None) ?req =
     \<lparr>batch_response = Batch_message 400 ''Missing required parameters'',
      batch_invocations = [], batch_logs = []\<rparr>"
  proof -
    have l: "batch_logs (batch_handler (example_batch_env None) ?req) = []"
      by (simp add: batch_handler_def required_fields_def example_batch_request_def
          bearer_token_def js_index_def example_batch_env_def)
    have k: "internal_api_key (example_batch_env None) = Some ''secret''"
      by (simp add: example_batch_env_def)
    have f: "body_fileKeys ?req = None" "batch_method ?req = ''POST''"
      by (simp_all add: example_batch_request_def)
    from batch_backend_errors [where req = ?req and env = "example_batch_env None",
        THEN conjunct1] f k example_batch_request_fields(3)
    have "batch_invocations (batch_handler (example_batch_env None) ?req) = [] \<and>
      batch_response (batch_handler (example_batch_env None) ?req) =
        Batch_message 400 ''Missing required parameters''"
      by simp
    with l show ?thesis
      by (cases "batch_handler (example_batch_env None) ?req") simp
  qed
  have e: "parse_envelope (example_batch_env (Some ?text)) ?text =
      Inr \<lparr>env_errorMessage = Some ''Task timed out'', env_body = None\<rparr>"
    by (simp add: parse_envelope_def example_batch_env_def)
  have w2: "batch_response (batch_handler (example_batch_env (Some ?text))
        example_batch_request) = Batch_failed ''Lambda error: Task timed out''"
    using batch_backend_errors [where req = example_batch_request
        and env = "example_batch_env (Some ?text)"
        and teamId = "''team_1''" and sourceBucket = "''bucket1''"
        and fileKeys = "[''a.pdf'', ''b.pdf'']" and folderStructure = "[(''a.pdf'', ''/'')]"
        and functionName = "''bulk-download''" and invocation = ?inv and payload_text = ?text
        and payload = "\<lparr>env_errorMessage = Some ''Task timed out'', env_body = None\<rparr>"
        and m = "''Task timed out''"] e
    by (simp add: example_batch_request_fields) (simp add: example_batch_env_def)
  have w3: "batch_response (batch_handler (example_batch_env None) example_batch_request) =
     Batch_failed ''Lambda response payload is undefined or empty''"
    using batch_backend_errors [where req = example_batch_request
        and env = "example_batch_env None"
        and teamId = "''team_1''" and sourceBucket = "''bucket1''"
        and fileKeys = "[''a.pdf'', ''b.pdf'']" and folderStructure = "[(''a.pdf'', ''/'')]"
        and functionName = "''bulk-download''" and invocation = ?inv]
    by (simp add: example_batch_request_fields) (simp add: example_batch_env_def)
  let ?env = "example_batch_env (Some example_result_payload)"
  let ?url = "''https://bucket1.s3.us-east-1.amazonaws.com/exports/x.zip''"
  have h: "batch_handler ?env example_batch_request =
      batch_reply ?env ?inv (Inr (Some example_result_payload))"
    using batch_backend_errors [where req = example_batch_request and env = ?env
        and teamId = "''team_1''" and sourceBucket = "''bucket1''"
        and fileKeys = "[''a.pdf'', ''b.pdf'']" and folderStructure = "[(''a.pdf'', ''/'')]"
        and functionName = "''bulk-download''", THEN conjunct2, THEN conjunct1]
    by (simp add: example_batch_request_fields) (simp add: example_batch_env_def)
  have pe: "parse_envelope ?env example_result_payload =
      Inr \<lparr>env_errorMessage = None, env_body = Some example_body\<rparr>"
    by code_simp
  have pb: "parse_body ?env (Some example_body) = Inr (Some ?url)"
    by code_simp
  have k: "s3KeyInfo_of ?env (Some ?url) =
      Some \<lparr>bucket = ''bucket1'', key = ''exports/x.zip'', region = ''us-east-1''\<rparr>"
    by code_simp
  have "batch_reply ?env ?inv (Inr (Some example_result_payload)) =
      (case parse_body ?env (Some example_body) of
         Inl message \<Rightarrow> batch_failure message [?inv]
       | Inr downloadUrl \<Rightarrow>
           \<lparr>batch_response = Batch_ok downloadUrl (s3KeyInfo_of ?env downloadUrl),
            batch_invocations = [?inv], batch_logs = []\<rparr>)"
    using batch_backend_errors [where env = ?env and invocation = ?inv
        and payload_text = example_result_payload
        and payload = "\<lparr>env_errorMessage = None, env_body = Some example_body\<rparr>",
        THEN conjunct2, THEN conjunct2, THEN conjunct2, THEN conjunct2, THEN conjunct2] pe
    by simp
  with h pb k have w4: "batch_handler ?env example_batch_request =
     \<lparr>batch_response = Batch_ok (Some ?url)
        (Some \<lparr>bucket = ''bucket1'', key = ''exports/x.zip'', region = ''us-east-1''\<rparr>),
      batch_invocations = [?inv], batch_logs = []\<rparr>"
    by simp
  from w1 w2 w3 w4 show ?thesis by simp
qed

text \<open>
  A backend answer at which the claim as stated fails: the payload holds an
  errorMessage, the empty text, beside a body with a download URL. The test of line
  153 is on the truthiness of the message, so the request is answered with the success
  response and the URL, not with the 500 failure.
\<close>

theorem empty_errorMessage_answered_200:
  "lambda_send (example_batch_env (Some example_empty_error_payload))
      \<lparr>inv_functionName = ''bulk-download'', inv_sourceBucket = ''bucket1'',
       inv_fileKeys = [''a.pdf'', ''b.pdf''], inv_folderStructure = [(''a.pdf'', ''/'')]\<rparr> =
     Inr (Some example_empty_error_payload) \<and>
   parse_envelope (example_batch_env (Some example_empty_error_payload))
      example_empty_error_payload =
     Inr \<lparr>env_errorMessage = Some [], env_body = Some example_body\<rparr> \<and>
   batch_handler (example_batch_env (Some example_empty_error_payload)) example_batch_request =
     \<lparr>batch_response =
        Batch_ok (Some ''https://bucket1.s3.us-east-1.amazonaws.com/exports/x.zip'')
          (Some \<lparr>bucket = ''bucket1'', key = ''exports/x.zip'', region = ''us-east-1''\<rparr>),
      batch_invocations =
        [\<lparr>inv_functionName = ''bulk-download'', inv_sourceBucket = ''bucket1'',
          inv_fileKeys = [''a.pdf'', ''b.pdf''], inv_folderStructure = [(''a.pdf'', ''/'')]\<rparr>],
      batch_logs = []\<rparr>"
  by code_simp

end
